theory Spec2Isabelle
  imports Main "HOL-Library.Word"
begin

section \<open>The deflate wrapper of pako-esm\<close>

text \<open>
  A shallow embedding of \<^verbatim>\<open>lib/deflate.js\<close> (the \<^verbatim>\<open>Deflate\<close> class with its
  \<^verbatim>\<open>push\<close>, \<^verbatim>\<open>onData\<close> and \<^verbatim>\<open>onEnd\<close> methods, and the one-shot functions
  \<^verbatim>\<open>deflate\<close>, \<^verbatim>\<open>deflateRaw\<close> and \<^verbatim>\<open>gzip\<close>), of \<^verbatim>\<open>flattenChunks\<close> from
  \<^verbatim>\<open>lib/utils/common.js\<close>, of the \<^verbatim>\<open>ZStream\<close> class and of the return codes of
  \<^verbatim>\<open>lib/zlib/constants.js\<close>.

  JavaScript numbers that hold codes, levels and window bits are \<^typ>\<open>int\<close>; cursors and
  byte counts are \<^typ>\<open>nat\<close>; the elements of a \<^verbatim>\<open>Uint8Array\<close> are 8-bit words; a
  JavaScript string is the list of its 16-bit code units. Option keys and diagnostic
  messages are HOL strings.
\<close>

subsection \<open>Values\<close>

type_synonym byte = "8 word"

type_synonym js_string = "16 word list"

text \<open>What \<^verbatim>\<open>push\<close> accepts as data (and the constructor as dictionary).\<close>

datatype data = Str js_string | ArrayBuffer "byte list" | Uint8Array "byte list"

text \<open>What \<^verbatim>\<open>push\<close> hands to \<^verbatim>\<open>onData\<close>: a byte array, or a binary string.\<close>

datatype chunk = Buf "byte list" | BinStr js_string

text \<open>
  The second argument of \<^verbatim>\<open>push\<close>: a number, a boolean, or left out.
\<close>

datatype mode_arg = Num int | Bool bool | Undefined

text \<open>The header object of \<^verbatim>\<open>types.d.ts\<close>; the wrapper only hands it to the engine
  (\<^verbatim>\<open>text\<close> is a keyword here, so the fields carry a prefix).\<close>

record Header =
  header_text :: "bool option"
  header_time :: "int option"
  header_os :: "int option"
  header_extra :: "int list option"
  header_name :: "js_string option"
  header_comment :: "js_string option"
  header_hcrc :: "bool option"

text \<open>What the wrapper throws: \<^verbatim>\<open>new Error(m)\<close> from the constructor, a bare value from
  the one-shot functions. The message is \<open>None\<close> when the table has no entry
  (\<^verbatim>\<open>undefined\<close>).\<close>

datatype exn = Error "string option" | Thrown "string option"

subsection \<open>Constants of \<^verbatim>\<open>lib/deflate.js\<close>\<close>

definition Z_NO_FLUSH :: int where "Z_NO_FLUSH = 0"
definition Z_FINISH :: int where "Z_FINISH = 4"
definition Z_OK :: int where "Z_OK = 0"
definition Z_STREAM_END :: int where "Z_STREAM_END = 1"
definition Z_SYNC_FLUSH :: int where "Z_SYNC_FLUSH = 2"
definition Z_DEFAULT_COMPRESSION :: int where "Z_DEFAULT_COMPRESSION = - 1"
definition Z_DEFAULT_STRATEGY :: int where "Z_DEFAULT_STRATEGY = 0"
definition Z_DEFLATED :: int where "Z_DEFLATED = 8"

subsection \<open>Return codes exported by \<^verbatim>\<open>lib/zlib/constants.js\<close>\<close>

text \<open>The export names, prefixed with the module's name (lines 30 to 38).\<close>

definition constants_Z_OK :: int where "constants_Z_OK = 0"
definition constants_Z_STREAM_END :: int where "constants_Z_STREAM_END = 1"
definition constants_Z_NEED_DICT :: int where "constants_Z_NEED_DICT = 2"
definition constants_Z_ERRNO :: int where "constants_Z_ERRNO = 1"
definition constants_Z_STREAM_ERROR :: int where "constants_Z_STREAM_ERROR = 2"
definition constants_Z_DATA_ERROR :: int where "constants_Z_DATA_ERROR = 3"
definition constants_Z_MEM_ERROR :: int where "constants_Z_MEM_ERROR = 4"
definition constants_Z_BUF_ERROR :: int where "constants_Z_BUF_ERROR = 5"
definition constants_Z_VERSION_ERROR :: int where "constants_Z_VERSION_ERROR = - 6"

text \<open>The codes the module exports as errors.\<close>

definition constants_error_codes :: "int list" where
  "constants_error_codes =
     [constants_Z_ERRNO, constants_Z_STREAM_ERROR, constants_Z_DATA_ERROR,
      constants_Z_MEM_ERROR, constants_Z_BUF_ERROR, constants_Z_VERSION_ERROR]"

text \<open>The same return codes as \<^verbatim>\<open>constants.d.ts\<close> declares them.\<close>

definition declared_Z_ERRNO :: int where "declared_Z_ERRNO = - 1"
definition declared_Z_STREAM_ERROR :: int where "declared_Z_STREAM_ERROR = - 2"
definition declared_Z_DATA_ERROR :: int where "declared_Z_DATA_ERROR = - 3"
definition declared_Z_BUF_ERROR :: int where "declared_Z_BUF_ERROR = - 5"

subsection \<open>The stream record of \<^verbatim>\<open>lib/zlib/zstream.js\<close>\<close>

text \<open>
  The buffers are byte lists; \<^verbatim>\<open>null\<close> (no buffer yet) is the empty list: \<^verbatim>\<open>push\<close>
  assigns \<^verbatim>\<open>input\<close> before it reads its length. The engine's private \<^verbatim>\<open>state\<close> is a
  type parameter.
\<close>

record 's ZStream =
  input :: "byte list"
  next_in :: nat
  avail_in :: nat
  total_in :: nat
  "output" :: "byte list"
  next_out :: nat
  avail_out :: nat
  total_out :: nat
  msg :: string
  state :: "'s option"
  data_type :: int
  adler :: int

definition ZStream_new :: "'s ZStream" where
  "ZStream_new =
     \<lparr>input = [], next_in = 0, avail_in = 0, total_in = 0,
      output = [], next_out = 0, avail_out = 0, total_out = 0,
      msg = '''', state = None, data_type = 2, adler = 0\<rparr>"

subsection \<open>The modules the wrapper imports and this development leaves open\<close>

text \<open>
  The compression engine (\<^verbatim>\<open>zlib/deflate.js\<close>), the string encoder (\<^verbatim>\<open>string2buf\<close> of
  \<^verbatim>\<open>utils/strings.js\<close>) and the message table (\<^verbatim>\<open>zlib/messages.js\<close>) are parameters. An
  engine function gets the stream record, and returns its status with the record as it
  left it (the JavaScript mutates the record in place). Every engine function is taken
  to return: an engine that throws is not modelled.
\<close>

record 's modules =
  zlib_deflateInit2 :: "'s ZStream \<Rightarrow> int \<Rightarrow> int \<Rightarrow> int \<Rightarrow> int \<Rightarrow> int \<Rightarrow> int \<times> 's ZStream"
  zlib_deflateSetHeader :: "'s ZStream \<Rightarrow> Header \<Rightarrow> 's ZStream"
  zlib_deflateSetDictionary :: "'s ZStream \<Rightarrow> byte list \<Rightarrow> int \<times> 's ZStream"
  zlib_deflate :: "'s ZStream \<Rightarrow> int \<Rightarrow> int \<times> 's ZStream"
  zlib_deflateEnd :: "'s ZStream \<Rightarrow> int \<times> 's ZStream"
  strings_string2buf :: "js_string \<Rightarrow> byte list"
  msg_table :: "int \<Rightarrow> string option"

text \<open>
  Modelled from the spec: \<^verbatim>\<open>commons.Buf8\<close>, the constructor of an output buffer, which
  \<^verbatim>\<open>push\<close> calls and the utility module at hand does not define: ``allocate a fresh
  output buffer of the configured chunk capacity''.
\<close>

definition Buf8 :: "nat \<Rightarrow> byte list" where
  "Buf8 n = replicate n 0"

text \<open>
  Modelled from the spec: \<^verbatim>\<open>commons.shrinkBuf\<close>, which \<^verbatim>\<open>push\<close> calls and the utility
  module at hand does not define: ``the filled portion of the output buffer (from 0 to
  output cursor)''.
\<close>

definition shrinkBuf :: "byte list \<Rightarrow> nat \<Rightarrow> byte list" where
  "shrinkBuf buf n = take n buf"

text \<open>
  Modelled from the spec: \<^verbatim>\<open>strings.buf2binstring\<close>, whose module is not at hand:
  ``decode to a textual binary string where each character's code equals one byte
  value 0--255''.
\<close>

definition buf2binstring :: "byte list \<Rightarrow> js_string" where
  "buf2binstring buf = map ucast buf"

subsection \<open>Options\<close>

text \<open>
  An options object as a caller writes it: every key may be missing.
\<close>

record options_object =
  o_level :: "int option"
  o_method :: "int option"
  o_chunkSize :: "nat option"
  o_windowBits :: "int option"
  o_memLevel :: "int option"
  o_strategy :: "int option"
  o_to :: "string option"
  o_raw :: "bool option"
  o_gzip :: "bool option"
  o_header :: "Header option"
  o_dictionary :: "data option"

definition empty_object :: options_object where
  "empty_object =
     \<lparr>o_level = None, o_method = None, o_chunkSize = None, o_windowBits = None,
      o_memLevel = None, o_strategy = None, o_to = None, o_raw = None, o_gzip = None,
      o_header = None, o_dictionary = None\<rparr>"

text \<open>
  The object \<^verbatim>\<open>this.options\<close>: the keys of the defaults are always there; a missing
  \<^verbatim>\<open>raw\<close> or \<^verbatim>\<open>gzip\<close> reads as false, a missing \<^verbatim>\<open>header\<close> or \<^verbatim>\<open>dictionary\<close> as \<open>None\<close>.
\<close>

record options =
  level :: int
  "method" :: int
  chunkSize :: nat
  windowBits :: int
  memLevel :: int
  strategy :: int
  to :: string
  raw :: bool
  gzip :: bool
  header :: "Header option"
  dictionary :: "data option"

text \<open>\<^verbatim>\<open>Object.assign(target, source)\<close>: every key of the source overwrites the target's.\<close>

definition assign :: "options \<Rightarrow> options_object \<Rightarrow> options" where
  "assign target source =
     \<lparr>level = (case o_level source of Some v \<Rightarrow> v | None \<Rightarrow> level target),
      method = (case o_method source of Some v \<Rightarrow> v | None \<Rightarrow> method target),
      chunkSize = (case o_chunkSize source of Some v \<Rightarrow> v | None \<Rightarrow> chunkSize target),
      windowBits = (case o_windowBits source of Some v \<Rightarrow> v | None \<Rightarrow> windowBits target),
      memLevel = (case o_memLevel source of Some v \<Rightarrow> v | None \<Rightarrow> memLevel target),
      strategy = (case o_strategy source of Some v \<Rightarrow> v | None \<Rightarrow> strategy target),
      to = (case o_to source of Some v \<Rightarrow> v | None \<Rightarrow> to target),
      raw = (case o_raw source of Some v \<Rightarrow> v | None \<Rightarrow> raw target),
      gzip = (case o_gzip source of Some v \<Rightarrow> v | None \<Rightarrow> gzip target),
      header = (case o_header source of Some v \<Rightarrow> Some v | None \<Rightarrow> header target),
      dictionary =
        (case o_dictionary source of Some v \<Rightarrow> Some v | None \<Rightarrow> dictionary target)\<rparr>"

text \<open>The object literal of lines 120 to 128.\<close>

definition default_options :: options where
  "default_options =
     \<lparr>level = Z_DEFAULT_COMPRESSION, method = Z_DEFLATED, chunkSize = 16384,
      windowBits = 15, memLevel = 8, strategy = Z_DEFAULT_STRATEGY, to = '''',
      raw = False, gzip = False, header = None, dictionary = None\<rparr>"

text \<open>Lines 132 to 138: the adjustment of \<^verbatim>\<open>windowBits\<close>.\<close>

definition adjust_windowBits :: "options \<Rightarrow> options" where
  "adjust_windowBits opt =
     (if raw opt \<and> windowBits opt > 0 then opt\<lparr>windowBits := - windowBits opt\<rparr>
      else if gzip opt \<and> windowBits opt > 0 \<and> windowBits opt < 16
        then opt\<lparr>windowBits := windowBits opt + 16\<rparr>
      else opt)"

subsection \<open>The \<^verbatim>\<open>Deflate\<close> object\<close>

text \<open>
  The calls of the two hooks are logged in \<open>calls\<close>, a field the JavaScript object does not
  have: it makes ``the hook was called'' a fact about the state. \<^verbatim>\<open>result\<close> is \<open>None\<close>
  until it is first assigned.
\<close>

datatype hook_call = OnData chunk | OnEnd int

record 's deflator =
  options :: options
  err :: int
  msg :: string
  ended :: bool
  chunks :: "chunk list"
  strm :: "'s ZStream"
  result :: "chunk option"
  dict_set :: bool
  calls :: "hook_call list"

subsection \<open>\<^verbatim>\<open>flattenChunks\<close> and \<^verbatim>\<open>join\<close>\<close>

text \<open>
  \<^verbatim>\<open>chunk.length\<close>, and the elements \<^verbatim>\<open>result.set(chunk, pos)\<close> stores. For a byte array
  they are its bytes. A string is array-like for \<^verbatim>\<open>set\<close>: each character is converted to
  a number, a decimal digit to its value and anything else to \<^verbatim>\<open>NaN\<close>, stored as 0.
\<close>

fun chunk_length :: "chunk \<Rightarrow> nat" where
  "chunk_length (Buf b) = length b"
| "chunk_length (BinStr s) = length s"

definition char_ToNumber :: "16 word \<Rightarrow> byte" where
  "char_ToNumber c = (if 48 \<le> c \<and> c \<le> 57 then ucast (c - 48) else 0)"

fun chunk_elements :: "chunk \<Rightarrow> byte list" where
  "chunk_elements (Buf b) = b"
| "chunk_elements (BinStr s) = map char_ToNumber s"

text \<open>
  \<^verbatim>\<open>result.set(source, pos)\<close> on a \<^verbatim>\<open>Uint8Array\<close>. JavaScript raises a \<^verbatim>\<open>RangeError\<close> when
  \<open>pos + length source\<close> exceeds the length of the target; \<^verbatim>\<open>flattenChunks\<close> allocates
  the summed length, so it never does.
\<close>

definition U8_set :: "byte list \<Rightarrow> byte list \<Rightarrow> nat \<Rightarrow> byte list" where
  "U8_set res source pos = take pos res @ source @ drop (pos + length source) res"

text \<open>The first loop of \<^verbatim>\<open>flattenChunks\<close> (lines 66 to 70), over the chunks left.\<close>

fun flatten_length :: "chunk list \<Rightarrow> nat \<Rightarrow> nat" where
  "flatten_length [] len = len"
| "flatten_length (chunk # rest) len = flatten_length rest (len + chunk_length chunk)"

text \<open>The second loop (lines 75 to 79).\<close>

fun flatten_join :: "chunk list \<Rightarrow> nat \<Rightarrow> byte list \<Rightarrow> byte list" where
  "flatten_join [] pos res = res"
| "flatten_join (chunk # rest) pos res =
     flatten_join rest (pos + chunk_length chunk) (U8_set res (chunk_elements chunk) pos)"

definition flattenChunks :: "chunk list \<Rightarrow> byte list" where
  "flattenChunks cs = flatten_join cs 0 (replicate (flatten_length cs 0) 0)"

text \<open>
  \<^verbatim>\<open>Array.prototype.join\<close>: the elements as strings, with the separator between them. A
  string is itself; a \<^verbatim>\<open>Uint8Array\<close> is its elements in decimal, joined by commas.
\<close>

fun join_with :: "js_string \<Rightarrow> js_string list \<Rightarrow> js_string" where
  "join_with sep [] = []"
| "join_with sep [x] = x"
| "join_with sep (x # y # ys) = x @ sep @ join_with sep (y # ys)"

definition byte_toString :: "byte \<Rightarrow> js_string" where
  "byte_toString b =
     (let n = unat b in
      if n < 10 then [of_nat (48 + n)]
      else if n < 100 then [of_nat (48 + n div 10), of_nat (48 + n mod 10)]
      else [of_nat (48 + n div 100), of_nat (48 + n div 10 mod 10), of_nat (48 + n mod 10)])"

fun chunk_toString :: "chunk \<Rightarrow> js_string" where
  "chunk_toString (BinStr s) = s"
| "chunk_toString (Buf b) = join_with [44] (map byte_toString b)"

definition join :: "chunk list \<Rightarrow> js_string" where
  "join cs = join_with [] (map chunk_toString cs)"

subsection \<open>The hooks\<close>

text \<open>\<^verbatim>\<open>Deflate.prototype.onData\<close> (lines 288 to 290).\<close>

definition onData :: "chunk \<Rightarrow> 's deflator \<Rightarrow> 's deflator" where
  "onData chunk this = this\<lparr>chunks := chunks this @ [chunk]\<rparr>"

text \<open>\<^verbatim>\<open>Deflate.prototype.onEnd\<close> (lines 303 to 315).\<close>

definition onEnd :: "int \<Rightarrow> 's deflator \<Rightarrow> 's deflator" where
  "onEnd status this =
     (let this1 =
        (if status = Z_OK then
           (if to (options this) = ''string''
            then this\<lparr>result := Some (BinStr (join (chunks this)))\<rparr>
            else this\<lparr>result := Some (Buf (flattenChunks (chunks this)))\<rparr>)
         else this)
      in this1\<lparr>chunks := [], err := status, msg := ZStream.msg (strm this1)\<rparr>)"

text \<open>A call \<^verbatim>\<open>this.onData(chunk)\<close> or \<^verbatim>\<open>this.onEnd(status)\<close> in \<^verbatim>\<open>push\<close>: logged, then run.\<close>

definition call_onData :: "chunk \<Rightarrow> 's deflator \<Rightarrow> 's deflator" where
  "call_onData chunk this = onData chunk (this\<lparr>calls := calls this @ [OnData chunk]\<rparr>)"

definition call_onEnd :: "int \<Rightarrow> 's deflator \<Rightarrow> 's deflator" where
  "call_onEnd status this = onEnd status (this\<lparr>calls := calls this @ [OnEnd status]\<rparr>)"

subsection \<open>The constructor\<close>

text \<open>
  \<^verbatim>\<open>new Deflate(options)\<close> (lines 117 to 185); the argument is \<open>None\<close> when the caller
  leaves it out. \<^verbatim>\<open>Object.assign\<close> writes to the fresh object literal and only reads the
  caller's object, which is therefore passed by value.

  Lines 120 to 138 compute \<^verbatim>\<open>this.options\<close>:
\<close>

definition Deflate_options :: "options_object option \<Rightarrow> options" where
  "Deflate_options options_arg =
     adjust_windowBits
       (assign default_options
          (case options_arg of None \<Rightarrow> empty_object | Some ob \<Rightarrow> ob))"

text \<open>
  Lines 140 to 185 set up the object and the engine. An empty string as dictionary is
  falsy, and skipped.
\<close>

definition Deflate_init :: "'s modules \<Rightarrow> options \<Rightarrow> exn + 's deflator" where
  "Deflate_init env opt =
     (let strm0 = ZStream_new\<lparr>avail_out := 0\<rparr>;
          (status, strm1) =
            zlib_deflateInit2 env strm0 (level opt) (method opt) (windowBits opt)
              (memLevel opt) (strategy opt)
      in if status \<noteq> Z_OK then Inl (Error (msg_table env status))
         else
           let strm2 = (case header opt of
                          Some h \<Rightarrow> zlib_deflateSetHeader env strm1 h
                        | None \<Rightarrow> strm1);
               this = \<lparr>options = opt, err = 0, msg = '''', ended = False, chunks = [],
                       strm = strm2, result = None, dict_set = False, calls = []\<rparr>
           in (case dictionary opt of
                 None \<Rightarrow> Inr this
               | Some dictv \<Rightarrow>
                   if dictv = Str [] then Inr this
                   else
                     let dict = (case dictv of
                                   Str s \<Rightarrow> strings_string2buf env s
                                 | ArrayBuffer b \<Rightarrow> b
                                 | Uint8Array b \<Rightarrow> b);
                         (status2, strm3) = zlib_deflateSetDictionary env strm2 dict
                     in if status2 \<noteq> Z_OK then Inl (Error (msg_table env status2))
                        else Inr (this\<lparr>strm := strm3, dict_set := True\<rparr>)))"

definition Deflate :: "'s modules \<Rightarrow> options_object option \<Rightarrow> exn + 's deflator" where
  "Deflate env options_arg = Deflate_init env (Deflate_options options_arg)"

subsection \<open>\<^verbatim>\<open>push\<close>\<close>

text \<open>
  Line 223: a number that equals its own 32-bit truncation is the mode; of the other
  values, \<^verbatim>\<open>true\<close> is \<^verbatim>\<open>Z_FINISH\<close> and the rest is \<^verbatim>\<open>Z_NO_FLUSH\<close>.
\<close>

definition push_mode :: "mode_arg \<Rightarrow> int" where
  "push_mode mode =
     (case mode of
        Num m \<Rightarrow> if - (2 ^ 31) \<le> m \<and> m < 2 ^ 31 then m else Z_NO_FLUSH
      | Bool b \<Rightarrow> if b then Z_FINISH else Z_NO_FLUSH
      | Undefined \<Rightarrow> Z_NO_FLUSH)"

text \<open>Lines 226 to 236: the data becomes the stream's input.\<close>

definition push_input :: "'s modules \<Rightarrow> data \<Rightarrow> 's deflator \<Rightarrow> 's deflator" where
  "push_input env dat this =
     (let inp = (case dat of
                   Str s \<Rightarrow> strings_string2buf env s
                 | ArrayBuffer b \<Rightarrow> b
                 | Uint8Array b \<Rightarrow> b)
      in this\<lparr>strm := (strm this)\<lparr>input := inp, next_in := 0, avail_in := length inp\<rparr>\<rparr>)"

text \<open>
  One pass through the body of the \<^verbatim>\<open>do ... while\<close> loop (lines 239 to 258), with what
  comes next: \<^verbatim>\<open>push\<close> returns false, the body runs again, or the loop is left.
\<close>

datatype 's iter_result =
  Return_false "'s deflator" | Loop_again "'s deflator" | Loop_exit "'s deflator"

text \<open>Lines 239 to 243.\<close>

definition fresh_output :: "nat \<Rightarrow> 's ZStream \<Rightarrow> 's ZStream" where
  "fresh_output n s =
     (if avail_out s = 0
      then s\<lparr>output := Buf8 n, next_out := 0, avail_out := n\<rparr>
      else s)"

text \<open>Lines 251 to 257.\<close>

definition emit :: "int \<Rightarrow> 's deflator \<Rightarrow> 's deflator" where
  "emit mode this =
     (let s = strm this in
      if avail_out s = 0 \<or> (avail_in s = 0 \<and> (mode = Z_FINISH \<or> mode = Z_SYNC_FLUSH))
      then (if to (options this) = ''string''
            then call_onData (BinStr (buf2binstring (shrinkBuf (output s) (next_out s)))) this
            else call_onData (Buf (shrinkBuf (output s) (next_out s))) this)
      else this)"

text \<open>The chunk those lines hand to \<^verbatim>\<open>onData\<close> for the filled bytes \<open>b\<close>, by the
  \<^verbatim>\<open>to\<close> option.\<close>

definition chunk_of :: "string \<Rightarrow> byte list \<Rightarrow> chunk" where
  "chunk_of t b = (if t = ''string'' then BinStr (buf2binstring b) else Buf b)"

definition push_iter :: "'s modules \<Rightarrow> int \<Rightarrow> 's deflator \<Rightarrow> 's iter_result" where
  "push_iter env mode this =
     (let (status, s) =
            zlib_deflate env (fresh_output (chunkSize (options this)) (strm this)) mode;
          this1 = this\<lparr>strm := s\<rparr>
      in if status \<noteq> Z_STREAM_END \<and> status \<noteq> Z_OK
         then Return_false ((call_onEnd status this1)\<lparr>ended := True\<rparr>)
         else
           let this2 = emit mode this1 in
           if (avail_in (strm this2) > 0 \<or> avail_out (strm this2) = 0)
              \<and> status \<noteq> Z_STREAM_END
           then Loop_again this2
           else Loop_exit this2)"

text \<open>
  The loop. An engine that never consumes its input keeps it running for ever, so the
  result is an option: \<open>None\<close> when the loop does not end; \<open>Inl\<close> when \<^verbatim>\<open>push\<close> returned
  false from inside it, \<open>Inr\<close> when it was left.
\<close>

partial_function (option) push_loop ::
  "'s modules \<Rightarrow> int \<Rightarrow> 's deflator \<Rightarrow> ('s deflator + 's deflator) option" where
  "push_loop env mode this =
     (case push_iter env mode this of
        Return_false this1 \<Rightarrow> Some (Inl this1)
      | Loop_again this1 \<Rightarrow> push_loop env mode this1
      | Loop_exit this1 \<Rightarrow> Some (Inr this1))"

declare push_loop.simps [code]

text \<open>Lines 260 to 275: after the loop.\<close>

definition push_end :: "'s modules \<Rightarrow> int \<Rightarrow> 's deflator \<Rightarrow> bool \<times> 's deflator" where
  "push_end env mode this =
     (if mode = Z_FINISH then
        (let (status, s) = zlib_deflateEnd env (strm this) in
         (status = Z_OK, (call_onEnd status (this\<lparr>strm := s\<rparr>))\<lparr>ended := True\<rparr>))
      else if mode = Z_SYNC_FLUSH then
        (let this1 = call_onEnd Z_OK this in
         (True, this1\<lparr>strm := (strm this1)\<lparr>avail_out := 0\<rparr>\<rparr>))
      else (True, this))"

text \<open>\<^verbatim>\<open>Deflate.prototype.push\<close> (lines 216 to 276): the value returned and the object
  after the call, or \<open>None\<close> when the loop does not end.\<close>

definition push ::
  "'s modules \<Rightarrow> data \<Rightarrow> mode_arg \<Rightarrow> 's deflator \<Rightarrow> (bool \<times> 's deflator) option" where
  "push env dat mode this =
     (if ended this then Some (False, this)
      else
        (case push_loop env (push_mode mode) (push_input env dat this) of
           None \<Rightarrow> None
         | Some (Inl this1) \<Rightarrow> Some (False, this1)
         | Some (Inr this1) \<Rightarrow> Some (push_end env (push_mode mode) this1)))"

text \<open>
  The object after \<open>n\<close> passes through the body, each of which ended in another pass;
  \<open>None\<close> when an earlier pass returned or left the loop.
\<close>

fun push_passes :: "'s modules \<Rightarrow> int \<Rightarrow> nat \<Rightarrow> 's deflator \<Rightarrow> 's deflator option" where
  "push_passes env mode 0 this = Some this"
| "push_passes env mode (Suc n) this =
     (case push_iter env mode this of
        Loop_again this1 \<Rightarrow> push_passes env mode n this1
      | Return_false this1 \<Rightarrow> None
      | Loop_exit this1 \<Rightarrow> None)"

subsection \<open>The one-shot functions\<close>

text \<open>
  What a one-shot call does: it throws (\<open>Inl\<close>), or returns \<^verbatim>\<open>deflator.result\<close> (\<open>Inr\<close>,
  with \<open>None\<close> for \<^verbatim>\<open>undefined\<close>); the outer \<open>None\<close> is a \<^verbatim>\<open>push\<close> that does not end.
\<close>

type_synonym outcome = "(exn + chunk option) option"

text \<open>\<^verbatim>\<open>deflate(input, options)\<close> (lines 352 to 361). It only reads \<^verbatim>\<open>options\<close>.\<close>

definition deflate :: "'s modules \<Rightarrow> data \<Rightarrow> options_object option \<Rightarrow> outcome" where
  "deflate env inp options_arg =
     (case Deflate env options_arg of
        Inl e \<Rightarrow> Some (Inl e)
      | Inr deflator \<Rightarrow>
          (case push env inp (Bool True) deflator of
             None \<Rightarrow> None
           | Some (r, deflator1) \<Rightarrow>
               if err deflator1 \<noteq> 0
               then Some (Inl (Thrown (if msg deflator1 \<noteq> '''' then Some (msg deflator1)
                                       else msg_table env (err deflator1))))
               else Some (Inr (result deflator1))))"

text \<open>
  \<^verbatim>\<open>deflateRaw\<close> and \<^verbatim>\<open>gzip\<close> write to the object they are given, which the caller still
  holds. So these two work on a store of the callers' options objects, a list indexed by
  address: the argument is an address in it, or \<open>None\<close> when left out, and the store
  after the call is part of the result. \<^verbatim>\<open>options || {}\<close> allocates a new object at the
  end of the store when the argument is left out.
\<close>

type_synonym heap = "options_object list"

definition options_or_new :: "heap \<Rightarrow> nat option \<Rightarrow> nat \<times> heap" where
  "options_or_new h options_ref =
     (case options_ref of Some a \<Rightarrow> (a, h) | None \<Rightarrow> (length h, h @ [empty_object]))"

text \<open>Lines 372 to 376.\<close>

definition deflateRaw :: "'s modules \<Rightarrow> heap \<Rightarrow> data \<Rightarrow> nat option \<Rightarrow> heap \<times> outcome" where
  "deflateRaw env h inp options_ref =
     (let (a, h1) = options_or_new h options_ref;
          h2 = h1[a := (h1 ! a)\<lparr>o_raw := Some True\<rparr>]
      in (h2, deflate env inp (Some (h2 ! a))))"

text \<open>Lines 387 to 391.\<close>

definition gzip_fn :: "'s modules \<Rightarrow> heap \<Rightarrow> data \<Rightarrow> nat option \<Rightarrow> heap \<times> outcome" where
  "gzip_fn env h inp options_ref =
     (let (a, h1) = options_or_new h options_ref;
          h2 = h1[a := (h1 ! a)\<lparr>o_gzip := Some True\<rparr>]
      in (h2, deflate env inp (Some (h2 ! a))))"

subsection \<open>A stand-in engine for the examples\<close>

text \<open>
  The theorems below hold for every engine. To run them on concrete inputs, this engine
  copies its input to its output unchanged, as many bytes as fit. Like zlib, it rejects
  parameters out of range (a level outside \<open>-1..9\<close>, a window size outside \<open>8..15\<close>
  once the format is taken off, and so on) and a flush mode outside \<open>0..5\<close> with the
  stream error \<open>-2\<close>; it reports the buffer error \<open>-5\<close> for a step that has no input
  and asks for no more flushing than the step before it, unless to finish; and it ends
  the stream when asked to finish with no input left. Its private state is the
  \<^verbatim>\<open>windowBits\<close> it was initialised with and the flush mode of the last step (\<open>-2\<close>
  before the first step, \<open>-1\<close> after a step that filled the output).
\<close>

definition rank :: "int \<Rightarrow> int" where
  "rank f = 2 * f - (if 4 < f then 9 else 0)"

definition stored_deflateInit2 ::
  "(int \<times> int) ZStream \<Rightarrow> int \<Rightarrow> int \<Rightarrow> int \<Rightarrow> int \<Rightarrow> int \<Rightarrow> int \<times> (int \<times> int) ZStream" where
  "stored_deflateInit2 s lvl meth wbits mlevel strat =
     (let w = (if wbits < 0 then - wbits else if 15 < wbits then wbits - 16 else wbits) in
      if mlevel < 1 \<or> 9 < mlevel \<or> meth \<noteq> 8 \<or> w < 8 \<or> 15 < w
         \<or> lvl < - 1 \<or> 9 < lvl \<or> strat < 0 \<or> 4 < strat
      then (- 2, s)
      else (0, s\<lparr>state := Some (wbits, - 2)\<rparr>))"

definition stored_deflate :: "(int \<times> int) ZStream \<Rightarrow> int \<Rightarrow> int \<times> (int \<times> int) ZStream" where
  "stored_deflate s flush =
     (case state s of
        None \<Rightarrow> (- 2, s\<lparr>ZStream.msg := ''stream error''\<rparr>)
      | Some (w, old_flush) \<Rightarrow>
          if flush < 0 \<or> 5 < flush then (- 2, s\<lparr>ZStream.msg := ''stream error''\<rparr>)
          else if avail_in s = 0 \<and> rank flush \<le> rank old_flush \<and> flush \<noteq> 4
          then (- 5, s\<lparr>ZStream.msg := ''buffer error'', state := Some (w, flush)\<rparr>)
          else
            let n = min (avail_in s) (avail_out s);
                s1 = s\<lparr>output := take (next_out s) (output s)
                                   @ take n (drop (next_in s) (input s))
                                   @ drop (next_out s + n) (output s),
                       next_in := next_in s + n, avail_in := avail_in s - n,
                       total_in := total_in s + n,
                       next_out := next_out s + n, avail_out := avail_out s - n,
                       total_out := total_out s + n\<rparr>
            in (if flush = 4 \<and> avail_in s1 = 0 then 1 else 0,
                s1\<lparr>state := Some (w, if avail_out s1 = 0 then - 1 else flush)\<rparr>))"

definition stored :: "(int \<times> int) modules" where
  "stored =
     \<lparr>zlib_deflateInit2 = stored_deflateInit2,
      zlib_deflateSetHeader = (\<lambda>s h. s),
      zlib_deflateSetDictionary = (\<lambda>s d. (0, s)),
      zlib_deflate = stored_deflate,
      zlib_deflateEnd = (\<lambda>s. (0, s\<lparr>state := None\<rparr>)),
      strings_string2buf = map ucast,
      msg_table = (\<lambda>c. if c = - 2 then Some ''stream error''
                        else if c = - 5 then Some ''buffer error'' else None)\<rparr>"

text \<open>
  The options \<^verbatim>\<open>{chunkSize: 2}\<close>, and the object that \<^verbatim>\<open>new Deflate({chunkSize: 2})\<close>
  returns with this engine.
\<close>

definition demo_options :: options_object where
  "demo_options = empty_object\<lparr>o_chunkSize := Some 2\<rparr>"

definition demo :: "(int \<times> int) deflator" where
  "demo =
     \<lparr>options = default_options\<lparr>chunkSize := 2\<rparr>, err = 0, msg = '''', ended = False,
      chunks = [], strm = ZStream_new\<lparr>state := Some (15, - 2)\<rparr>, result = None,
      dict_set = False, calls = []\<rparr>"

text \<open>The same object after \<^verbatim>\<open>push([1, 2, 3], Z_SYNC_FLUSH)\<close>.\<close>

definition demo_flushed :: "(int \<times> int) deflator" where
  "demo_flushed =
     demo\<lparr>strm := (strm demo)\<lparr>input := [1, 2, 3], next_in := 3, avail_in := 0,
                   total_in := 3, output := [3, 0], next_out := 1, avail_out := 0,
                   total_out := 3, state := Some (15, 2)\<rparr>,
          result := Some (Buf [1, 2, 3]),
          calls := [OnData (Buf [1, 2]), OnData (Buf [3]), OnEnd 0]\<rparr>"

section \<open>Properties\<close>

subsection \<open>Auxiliary facts\<close>

lemma onEnd_frame:
  "ended (onEnd st d) = ended d" "options (onEnd st d) = options d" "strm (onEnd st d) = strm d"
  "calls (onEnd st d) = calls d" "chunks (onEnd st d) = []" "err (onEnd st d) = st"
  "msg (onEnd st d) = ZStream.msg (strm d)" "dict_set (onEnd st d) = dict_set d"
  by (simp_all add: onEnd_def Let_def)

lemma call_onEnd_frame:
  "ended (call_onEnd st d) = ended d" "options (call_onEnd st d) = options d"
  "strm (call_onEnd st d) = strm d" "calls (call_onEnd st d) = calls d @ [OnEnd st]"
  "chunks (call_onEnd st d) = []" "err (call_onEnd st d) = st"
  "msg (call_onEnd st d) = ZStream.msg (strm d)"
  by (simp_all add: call_onEnd_def onEnd_frame)

lemma call_onData_eq:
  "call_onData c d = d\<lparr>chunks := chunks d @ [c], calls := calls d @ [OnData c]\<rparr>"
  by (simp add: call_onData_def onData_def)

lemma emit_eq:
  "emit mode d =
     (if avail_out (strm d) = 0 \<or> (avail_in (strm d) = 0 \<and> (mode = Z_FINISH \<or> mode = Z_SYNC_FLUSH))
      then let c = chunk_of (to (options d)) (take (next_out (strm d)) (output (strm d)))
           in d\<lparr>chunks := chunks d @ [c], calls := calls d @ [OnData c]\<rparr>
      else d)"
  by (simp add: emit_def call_onData_eq shrinkBuf_def chunk_of_def Let_def)

lemma emit_frame:
  "ended (emit mode d) = ended d" "options (emit mode d) = options d" "strm (emit mode d) = strm d"
  "err (emit mode d) = err d" "msg (emit mode d) = msg d" "result (emit mode d) = result d"
  by (simp_all add: emit_eq Let_def)

lemma emit_calls:
  "\<exists>bss. calls (emit mode d) = calls d @ map (OnData \<circ> chunk_of (to (options d))) bss
         \<and> chunks (emit mode d) = chunks d @ map (chunk_of (to (options d))) bss"
proof (cases "avail_out (strm d) = 0 \<or> (avail_in (strm d) = 0 \<and> (mode = Z_FINISH \<or> mode = Z_SYNC_FLUSH))")
  case True
  let ?b = "take (next_out (strm d)) (output (strm d))"
  have "calls (emit mode d) = calls d @ map (OnData \<circ> chunk_of (to (options d))) [?b]
      \<and> chunks (emit mode d) = chunks d @ map (chunk_of (to (options d))) [?b]"
    using True by (simp add: emit_eq Let_def)
  then show ?thesis by blast
next
  case False
  then have "calls (emit mode d) = calls d @ map (OnData \<circ> chunk_of (to (options d))) []
      \<and> chunks (emit mode d) = chunks d @ map (chunk_of (to (options d))) []"
    by (simp add: emit_eq Let_def)
  then show ?thesis by blast
qed

lemma push_iter_again:
  assumes "push_iter env mode d = Loop_again d'"
  shows "ended d' = ended d \<and> options d' = options d \<and> err d' = err d \<and> msg d' = msg d
     \<and> result d' = result d
     \<and> (\<exists>bss. calls d' = calls d @ map (OnData \<circ> chunk_of (to (options d))) bss
              \<and> chunks d' = chunks d @ map (chunk_of (to (options d))) bss)"
proof -
  obtain st s where
    step: "zlib_deflate env (fresh_output (chunkSize (options d)) (strm d)) mode = (st, s)"
    by (cases "zlib_deflate env (fresh_output (chunkSize (options d)) (strm d)) mode") auto
  from assms step have d': "d' = emit mode (d\<lparr>strm := s\<rparr>)"
    by (simp add: push_iter_def Let_def split: if_splits)
  show ?thesis
    unfolding d' using emit_calls [of mode "d\<lparr>strm := s\<rparr>"] by (simp add: emit_frame)
qed

lemma push_iter_exit:
  assumes "push_iter env mode d = Loop_exit d'"
  shows "ended d' = ended d \<and> options d' = options d \<and> err d' = err d \<and> msg d' = msg d
     \<and> result d' = result d
     \<and> (\<exists>bss. calls d' = calls d @ map (OnData \<circ> chunk_of (to (options d))) bss
              \<and> chunks d' = chunks d @ map (chunk_of (to (options d))) bss)"
proof -
  obtain st s where
    step: "zlib_deflate env (fresh_output (chunkSize (options d)) (strm d)) mode = (st, s)"
    by (cases "zlib_deflate env (fresh_output (chunkSize (options d)) (strm d)) mode") auto
  from assms step have d': "d' = emit mode (d\<lparr>strm := s\<rparr>)"
    by (simp add: push_iter_def Let_def split: if_splits)
  show ?thesis
    unfolding d' using emit_calls [of mode "d\<lparr>strm := s\<rparr>"] by (simp add: emit_frame)
qed

lemma push_passes_frame:
  "push_passes env mode n d = Some dn \<Longrightarrow>
   ended dn = ended d \<and> options dn = options d \<and> err dn = err d \<and> msg dn = msg d
     \<and> result dn = result d
     \<and> (\<exists>bss. calls dn = calls d @ map (OnData \<circ> chunk_of (to (options d))) bss
              \<and> chunks dn = chunks d @ map (chunk_of (to (options d))) bss)"
proof (induction n arbitrary: d)
  case 0
  then have "calls dn = calls d @ map (OnData \<circ> chunk_of (to (options d))) []
     \<and> chunks dn = chunks d @ map (chunk_of (to (options d))) []" by simp
  with 0 show ?case by (metis option.inject push_passes.simps(1))
next
  case (Suc n)
  then obtain d1 where it: "push_iter env mode d = Loop_again d1"
    and rest: "push_passes env mode n d1 = Some dn"
    by (auto split: iter_result.splits)
  from push_iter_again [OF it] obtain bs1 where
    a: "ended d1 = ended d" "options d1 = options d" "err d1 = err d" "msg d1 = msg d"
       "result d1 = result d"
       "calls d1 = calls d @ map (OnData \<circ> chunk_of (to (options d))) bs1"
       "chunks d1 = chunks d @ map (chunk_of (to (options d))) bs1" by blast
  from Suc.IH [OF rest] obtain bs2 where
    b: "ended dn = ended d1" "options dn = options d1" "err dn = err d1" "msg dn = msg d1"
       "result dn = result d1"
       "calls dn = calls d1 @ map (OnData \<circ> chunk_of (to (options d1))) bs2"
       "chunks dn = chunks d1 @ map (chunk_of (to (options d1))) bs2" by blast
  have "calls dn = calls d @ map (OnData \<circ> chunk_of (to (options d))) (bs1 @ bs2)
      \<and> chunks dn = chunks d @ map (chunk_of (to (options d))) (bs1 @ bs2)"
    using a b by simp
  then show ?case using a b by (metis (no_types))
qed

lemma push_passes_loop:
  "push_passes env mode n d = Some dn \<Longrightarrow> push_loop env mode d = push_loop env mode dn"
proof (induction n arbitrary: d)
  case 0
  then show ?case by simp
next
  case (Suc n)
  then obtain d1 where it: "push_iter env mode d = Loop_again d1"
    and rest: "push_passes env mode n d1 = Some dn"
    by (auto split: iter_result.splits)
  have "push_loop env mode d = push_loop env mode d1"
    by (subst push_loop.simps) (simp add: it)
  then show ?case using Suc.IH [OF rest] by simp
qed

lemma push_loop_passes:
  "push_loop env mode d = Some r \<Longrightarrow> \<exists>n dn. push_passes env mode n d = Some dn \<and>
          (case r of Inl d' \<Rightarrow> push_iter env mode dn = Return_false d'
                   | Inr d' \<Rightarrow> push_iter env mode dn = Loop_exit d')"
proof (induction env mode d r rule: push_loop.raw_induct [rotated 1, consumes 1, case_names step])
  case (step f env mode d r)
  show ?case
  proof (cases "push_iter env mode d")
    case (Return_false d1)
    with step(2) have "r = Inl d1" by simp
    with Return_false have "push_passes env mode 0 d = Some d \<and>
          (case r of Inl d' \<Rightarrow> push_iter env mode d = Return_false d'
                   | Inr d' \<Rightarrow> push_iter env mode d = Loop_exit d')" by simp
    then show ?thesis by blast
  next
    case (Loop_again d1)
    with step(2) have "f env mode d1 = Some r" by simp
    from step(1) [OF this] obtain n dn where
      p: "push_passes env mode n d1 = Some dn" and
      q: "(case r of Inl d' \<Rightarrow> push_iter env mode dn = Return_false d'
                   | Inr d' \<Rightarrow> push_iter env mode dn = Loop_exit d')" by blast
    have "push_passes env mode (Suc n) d = Some dn" using Loop_again p by simp
    with q show ?thesis by blast
  next
    case (Loop_exit d1)
    with step(2) have "r = Inr d1" by simp
    with Loop_exit have "push_passes env mode 0 d = Some d \<and>
          (case r of Inl d' \<Rightarrow> push_iter env mode d = Return_false d'
                   | Inr d' \<Rightarrow> push_iter env mode d = Loop_exit d')" by simp
    then show ?thesis by blast
  qed
qed

lemma push_input_frame:
  "ended (push_input env dat d) = ended d" "options (push_input env dat d) = options d"
  "calls (push_input env dat d) = calls d" "chunks (push_input env dat d) = chunks d"
  "err (push_input env dat d) = err d" "msg (push_input env dat d) = msg d"
  "result (push_input env dat d) = result d"
  by (simp_all add: push_input_def Let_def)

lemma push_ended: "ended d \<Longrightarrow> push env dat mode d = Some (False, d)"
  by (simp add: push_def)

lemma flatten_length_sum: "flatten_length cs len = len + sum_list (map chunk_length cs)"
  by (induction cs arbitrary: len) auto

lemma flatten_join_Buf:
  "length res = length pre + length (concat bss) + k \<Longrightarrow> take (length pre) res = pre \<Longrightarrow>
   flatten_join (map Buf bss) (length pre) res = pre @ concat bss @ drop (length pre + length (concat bss)) res"
proof (induction bss arbitrary: pre res)
  case Nil
  then show ?case by (metis append_take_drop_id concat.simps(1) list.simps(8) flatten_join.simps(1) append_Nil add.right_neutral list.size(3))
next
  case (Cons b bss)
  let ?res = "U8_set res b (length pre)"
  have len: "length ?res = length (pre @ b) + length (concat bss) + k"
    using Cons.prems by (simp add: U8_set_def)
  have tk: "take (length (pre @ b)) ?res = pre @ b"
    using Cons.prems by (simp add: U8_set_def)
  have dr: "drop (length (pre @ b) + length (concat bss)) ?res = drop (length pre + length (concat (b # bss))) res"
    using Cons.prems by (simp add: U8_set_def add.assoc add.commute add.left_commute)
  have "flatten_join (map Buf (b # bss)) (length pre) res = flatten_join (map Buf bss) (length (pre @ b)) ?res"
    by simp
  also have "\<dots> = (pre @ b) @ concat bss @ drop (length (pre @ b) + length (concat bss)) ?res"
    using Cons.IH [OF len tk] .
  finally show ?case using dr by simp
qed

lemma flattenChunks_Buf: "flattenChunks (map Buf bss) = concat bss"
proof -
  have l: "flatten_length (map Buf bss) 0 = length (concat bss)"
    by (simp add: flatten_length_sum length_concat comp_def)
  show ?thesis
    unfolding flattenChunks_def l
    using flatten_join_Buf [of "replicate (length (concat bss)) 0" "[]" bss 0]
    by simp
qed

lemma join_with_Nil: "join_with [] xs = concat xs"
  by (induction "[] :: js_string" xs rule: join_with.induct) auto

lemma join_BinStr: "join (map BinStr ss) = concat ss"
  by (simp add: join_def join_with_Nil comp_def)

lemma chunks_fold_onData: "chunks (fold onData cs d) = chunks d @ cs"
  by (induction cs arbitrary: d) (simp_all add: onData_def)

lemma onEnd_result_chunk_of:
  assumes "chunks d = map (chunk_of (to (options d))) bss"
  shows "result (onEnd Z_OK d) = Some (chunk_of (to (options d)) (concat bss))"
proof (cases "to (options d) = ''string''")
  case True
  then have "chunks d = map BinStr (map buf2binstring bss)"
    using assms by (simp add: chunk_of_def)
  then have "join (chunks d) = concat (map buf2binstring bss)"
    by (simp only: join_BinStr)
  also have "\<dots> = buf2binstring (concat bss)"
    by (induction bss) (simp_all add: buf2binstring_def)
  finally show ?thesis using True by (simp add: onEnd_def chunk_of_def)
next
  case False
  then have "chunks d = map Buf bss"
    using assms by (simp add: chunk_of_def)
  then have "flattenChunks (chunks d) = concat bss"
    by (simp add: flattenChunks_Buf)
  then show ?thesis using False by (simp add: onEnd_def chunk_of_def)
qed

lemma push_iter_false:
  assumes "push_iter env mode d = Return_false d'"
  shows "err d' \<noteq> Z_OK"
proof -
  obtain st s where
    step: "zlib_deflate env (fresh_output (chunkSize (options d)) (strm d)) mode = (st, s)"
    by (cases "zlib_deflate env (fresh_output (chunkSize (options d)) (strm d)) mode") auto
  from assms step have "d' = (call_onEnd st (d\<lparr>strm := s\<rparr>))\<lparr>ended := True\<rparr> \<and> st \<noteq> Z_OK"
    by (simp add: push_iter_def Let_def split: if_splits)
  then show ?thesis by (simp add: call_onEnd_frame)
qed

lemma push_finish_result:
  assumes live: "\<not> ended d" and empty: "chunks d = []"
      and p: "push env inp (Num Z_FINISH) d = Some (b, d1)" and ok: "err d1 = 0"
  shows "\<exists>bss. calls d1 = calls d @ map (OnData \<circ> chunk_of (to (options d))) bss @ [OnEnd Z_OK]
             \<and> result d1 = Some (chunk_of (to (options d)) (concat bss)) \<and> b \<and> ended d1"
proof -
  have m: "push_mode (Num Z_FINISH) = Z_FINISH" by (simp add: push_mode_def Z_FINISH_def)
  from p live obtain r where
    loop: "push_loop env Z_FINISH (push_input env inp d) = Some r"
    by (auto simp add: push_def m split: option.splits)
  from push_loop_passes [OF loop] obtain n dn where
    passes: "push_passes env Z_FINISH n (push_input env inp d) = Some dn" and
    last: "case r of Inl d' \<Rightarrow> push_iter env Z_FINISH dn = Return_false d'
                   | Inr d' \<Rightarrow> push_iter env Z_FINISH dn = Loop_exit d'" by blast
  show ?thesis
  proof (cases r)
    case (Inl d2)
    with p live loop have "d1 = d2" by (simp add: push_def m)
    moreover from Inl last have "err d2 \<noteq> Z_OK" by (simp add: push_iter_false)
    ultimately show ?thesis using ok by (simp add: Z_OK_def)
  next
    case (Inr d2)
    with last have ex: "push_iter env Z_FINISH dn = Loop_exit d2" by simp
    from push_passes_frame [OF passes] obtain bs1 where
      f1: "options dn = options d"
          "calls dn = calls d @ map (OnData \<circ> chunk_of (to (options d))) bs1"
          "chunks dn = map (chunk_of (to (options d))) bs1"
      by (auto simp add: push_input_frame empty)
    from push_iter_exit [OF ex] obtain bs2 where
      f2: "options d2 = options dn"
          "calls d2 = calls dn @ map (OnData \<circ> chunk_of (to (options dn))) bs2"
          "chunks d2 = chunks dn @ map (chunk_of (to (options dn))) bs2" by blast
    let ?bss = "bs1 @ bs2"
    let ?st = "fst (zlib_deflateEnd env (strm d2))"
    let ?s = "snd (zlib_deflateEnd env (strm d2))"
    have c: "calls d2 = calls d @ map (OnData \<circ> chunk_of (to (options d))) ?bss"
      and k: "chunks d2 = map (chunk_of (to (options d))) ?bss"
      and o: "options d2 = options d"
      using f1 f2 by simp_all
    from p live loop Inr have d1: "b = (?st = Z_OK)"
      "d1 = (call_onEnd ?st (d2\<lparr>strm := ?s\<rparr>))\<lparr>ended := True\<rparr>"
      by (simp_all add: push_def m push_end_def split_beta)
    from d1(2) ok have st: "?st = Z_OK" by (simp add: call_onEnd_frame Z_OK_def)
    have res: "result d1 = Some (chunk_of (to (options d)) (concat ?bss))"
      using onEnd_result_chunk_of [of "d2\<lparr>strm := ?s, calls := calls d2 @ [OnEnd Z_OK]\<rparr>" ?bss]
      by (simp add: d1(2) st call_onEnd_def k o)
    have "calls d1 = calls d @ map (OnData \<circ> chunk_of (to (options d))) ?bss @ [OnEnd Z_OK]"
      by (simp add: d1(2) st call_onEnd_frame c)
    with res d1(1) st have "calls d1 = calls d @ map (OnData \<circ> chunk_of (to (options d))) ?bss @ [OnEnd Z_OK]
             \<and> result d1 = Some (chunk_of (to (options d)) (concat ?bss)) \<and> b \<and> ended d1"
      by (simp add: d1(2))
    then show ?thesis by blast
  qed
qed

lemma Deflate_fresh:
  assumes "Deflate env options_arg = Inr d"
  shows "\<not> ended d \<and> chunks d = [] \<and> calls d = [] \<and> options d = Deflate_options options_arg"
  using assms
  by (auto simp add: Deflate_def Deflate_init_def Let_def split_beta
        split: if_splits option.splits)

lemmas demo_eval =
  demo_def demo_options_def empty_object_def stored_def stored_deflateInit2_def
  stored_deflate_def rank_def Deflate_def Deflate_options_def Deflate_init_def assign_def
  default_options_def adjust_windowBits_def ZStream_new_def
  Z_OK_def Z_STREAM_END_def Z_FINISH_def Z_SYNC_FLUSH_def Z_NO_FLUSH_def
  Z_DEFAULT_COMPRESSION_def Z_DEFLATED_def Z_DEFAULT_STRATEGY_def
  push_def push_input_def push_mode_def push_iter_def fresh_output_def emit_def
  push_end_def Buf8_def shrinkBuf_def buf2binstring_def
  call_onData_def call_onEnd_def onData_def onEnd_def
  flattenChunks_def U8_set_def join_def Let_def numeral_2_eq_2

lemma push_mode_finish: "push_mode (Bool True) = push_mode (Num Z_FINISH)"
  by (simp add: push_mode_def Z_FINISH_def)

lemma push_Bool_True: "push env inp (Bool True) d = push env inp (Num Z_FINISH) d"
  by (simp only: push_def push_mode_finish)

subsection \<open>The claims\<close>

text \<open>
  \<^bold>\<open>C1\<close> (as amended). In every pass through the loop of \<^verbatim>\<open>push\<close>: when the remaining
  output capacity is 0, a fresh output buffer of the configured chunk size is put in
  place, with output cursor 0 and the full chunk size as remaining capacity, and
  otherwise the stream is left as it is. When the engine step of the pass returns ok or
  stream-end, the filled part of the output buffer, from 0 to the output cursor, is
  handed to \<^verbatim>\<open>onData\<close> as one chunk exactly when the buffer is full or all input is
  consumed and the mode is finish or sync-flush, as a binary string when \<^verbatim>\<open>to\<close> is
  \<^verbatim>\<open>'string'\<close>; and the body runs again exactly when input remains or the buffer is
  full, and the status is not stream-end.
\<close>

theorem push_pass_ok:
  assumes step: "zlib_deflate env (fresh_output (chunkSize (options this)) (strm this)) mode = (status, s)"
      and ok: "status = Z_OK \<or> status = Z_STREAM_END"
  shows "fresh_output (chunkSize (options this)) (strm this) =
           (if avail_out (strm this) = 0
            then (strm this)\<lparr>output := replicate (chunkSize (options this)) 0, next_out := 0,
                               avail_out := chunkSize (options this)\<rparr>
            else strm this)
       \<and> push_iter env mode this =
           (let c = (if to (options this) = ''string''
                     then BinStr (buf2binstring (take (next_out s) (output s)))
                     else Buf (take (next_out s) (output s)));
                this1 = (if avail_out s = 0 \<or> (avail_in s = 0 \<and> (mode = Z_FINISH \<or> mode = Z_SYNC_FLUSH))
                         then this\<lparr>strm := s, chunks := chunks this @ [c],
                                   calls := calls this @ [OnData c]\<rparr>
                         else this\<lparr>strm := s\<rparr>)
            in if (0 < avail_in s \<or> avail_out s = 0) \<and> status \<noteq> Z_STREAM_END
               then Loop_again this1 else Loop_exit this1)"
proof -
  have a: "fresh_output (chunkSize (options this)) (strm this) =
           (if avail_out (strm this) = 0
            then (strm this)\<lparr>output := replicate (chunkSize (options this)) 0, next_out := 0,
                               avail_out := chunkSize (options this)\<rparr>
            else strm this)"
    by (simp add: fresh_output_def Buf8_def)
  have b: "push_iter env mode this =
           (let c = (if to (options this) = ''string''
                     then BinStr (buf2binstring (take (next_out s) (output s)))
                     else Buf (take (next_out s) (output s)));
                this1 = (if avail_out s = 0 \<or> (avail_in s = 0 \<and> (mode = Z_FINISH \<or> mode = Z_SYNC_FLUSH))
                         then this\<lparr>strm := s, chunks := chunks this @ [c],
                                   calls := calls this @ [OnData c]\<rparr>
                         else this\<lparr>strm := s\<rparr>)
            in if (0 < avail_in s \<or> avail_out s = 0) \<and> status \<noteq> Z_STREAM_END
               then Loop_again this1 else Loop_exit this1)"
    using ok by (auto simp add: push_iter_def step emit_eq chunk_of_def Let_def)
  show ?thesis using a b by blast
qed

text \<open>
  The first pass of a finishing push of three bytes with chunks of two: the engine fills
  the buffer and returns ok, the chunk \<open>[1, 2]\<close> is handed over and the body runs again.
\<close>

theorem push_pass_ok_witness:
  "zlib_deflate stored
     (fresh_output (chunkSize (options (push_input stored (Uint8Array [1, 2, 3]) demo)))
        (strm (push_input stored (Uint8Array [1, 2, 3]) demo))) Z_FINISH
     = (Z_OK, (strm demo)\<lparr>input := [1, 2, 3], next_in := 2, avail_in := 1, total_in := 2,
                            output := [1, 2], next_out := 2, avail_out := 0, total_out := 2,
                            state := Some (15, - 1)\<rparr>)
   \<and> push_iter stored Z_FINISH (push_input stored (Uint8Array [1, 2, 3]) demo)
     = Loop_again
         (demo\<lparr>strm := (strm demo)\<lparr>input := [1, 2, 3], next_in := 2, avail_in := 1,
                     total_in := 2, output := [1, 2], next_out := 2, avail_out := 0,
                     total_out := 2, state := Some (15, - 1)\<rparr>,
                chunks := [Buf [1, 2]], calls := [OnData (Buf [1, 2])]\<rparr>)"
proof -
  let ?d = "push_input stored (Uint8Array [1, 2, 3]) demo"
  let ?s = "(strm demo)\<lparr>input := [1, 2, 3], next_in := 2, avail_in := 1, total_in := 2,
                            output := [1, 2], next_out := 2, avail_out := 0, total_out := 2,
                            state := Some (15, - 1)\<rparr>"
  have step: "zlib_deflate stored (fresh_output (chunkSize (options ?d)) (strm ?d)) Z_FINISH
                = (Z_OK, ?s)"
    by (simp add: demo_eval)
  have ok: "Z_OK = Z_OK \<or> Z_OK = Z_STREAM_END" by simp
  from push_pass_ok [OF step ok] have
    "push_iter stored Z_FINISH ?d
     = Loop_again
         (demo\<lparr>strm := ?s, chunks := [Buf [1, 2]], calls := [OnData (Buf [1, 2])]\<rparr>)"
    by (simp add: demo_def push_input_def ZStream_new_def default_options_def Z_STREAM_END_def
        Z_OK_def Let_def)
  with step show ?thesis by simp
qed

text \<open>
  Without the proviso on the status, the statement fails on a pass whose engine step
  returns an error, since line 246 then makes \<^verbatim>\<open>push\<close> return false. Pushing three
  bytes with the mode 7, which the engine rejects with the status \<open>-2\<close> and all input
  left: ``input remains and the status is not stream-end'' holds, and the loop does not
  continue. Pushing no bytes with sync-flush right after a push with sync-flush, which
  the engine answers with the buffer error \<open>-5\<close>: ``all input is consumed and the mode
  is sync-flush'' holds, and no chunk is handed to \<^verbatim>\<open>onData\<close>.
\<close>

theorem push_pass_error_counterexample:
  "zlib_deflate stored
     (fresh_output (chunkSize (options (push_input stored (Uint8Array [1, 2, 3]) demo)))
        (strm (push_input stored (Uint8Array [1, 2, 3]) demo))) 7
     = (- 2, (strm demo)\<lparr>input := [1, 2, 3], avail_in := 3, output := [0, 0], avail_out := 2,
                          ZStream.msg := ''stream error''\<rparr>)
   \<and> - 2 \<noteq> Z_STREAM_END
   \<and> push_iter stored 7 (push_input stored (Uint8Array [1, 2, 3]) demo)
     = Return_false
         (demo\<lparr>strm := (strm demo)\<lparr>input := [1, 2, 3], avail_in := 3, output := [0, 0],
                     avail_out := 2, ZStream.msg := ''stream error''\<rparr>,
                err := - 2, msg := ''stream error'', ended := True, calls := [OnEnd (- 2)]\<rparr>)
   \<and> push stored (Uint8Array [1, 2, 3]) (Num Z_SYNC_FLUSH) demo = Some (True, demo_flushed)
   \<and> zlib_deflate stored
       (fresh_output (chunkSize (options (push_input stored (Uint8Array []) demo_flushed)))
          (strm (push_input stored (Uint8Array []) demo_flushed))) Z_SYNC_FLUSH
     = (- 5, (strm demo_flushed)\<lparr>input := [], next_in := 0, avail_in := 0, output := [0, 0],
                                  next_out := 0, avail_out := 2,
                                  ZStream.msg := ''buffer error''\<rparr>)
   \<and> push_iter stored Z_SYNC_FLUSH (push_input stored (Uint8Array []) demo_flushed)
     = Return_false
         (demo_flushed\<lparr>strm := (strm demo_flushed)\<lparr>input := [], next_in := 0, avail_in := 0,
                             output := [0, 0], next_out := 0, avail_out := 2,
                             ZStream.msg := ''buffer error''\<rparr>,
                        err := - 5, msg := ''buffer error'', ended := True,
                        calls := [OnData (Buf [1, 2]), OnData (Buf [3]), OnEnd 0,
                                  OnEnd (- 5)]\<rparr>)"
proof -
  have a: "zlib_deflate stored
     (fresh_output (chunkSize (options (push_input stored (Uint8Array [1, 2, 3]) demo)))
        (strm (push_input stored (Uint8Array [1, 2, 3]) demo))) 7
     = (- 2, (strm demo)\<lparr>input := [1, 2, 3], avail_in := 3, output := [0, 0], avail_out := 2,
                          ZStream.msg := ''stream error''\<rparr>)
   \<and> - 2 \<noteq> Z_STREAM_END
   \<and> push_iter stored 7 (push_input stored (Uint8Array [1, 2, 3]) demo)
     = Return_false
         (demo\<lparr>strm := (strm demo)\<lparr>input := [1, 2, 3], avail_in := 3, output := [0, 0],
                     avail_out := 2, ZStream.msg := ''stream error''\<rparr>,
                err := - 2, msg := ''stream error'', ended := True, calls := [OnEnd (- 2)]\<rparr>)"
    by (simp add: demo_eval)
  have b: "push stored (Uint8Array [1, 2, 3]) (Num Z_SYNC_FLUSH) demo = Some (True, demo_flushed)"
    by (simp add: push_loop.simps demo_flushed_def demo_eval)
  have c: "zlib_deflate stored
       (fresh_output (chunkSize (options (push_input stored (Uint8Array []) demo_flushed)))
          (strm (push_input stored (Uint8Array []) demo_flushed))) Z_SYNC_FLUSH
     = (- 5, (strm demo_flushed)\<lparr>input := [], next_in := 0, avail_in := 0, output := [0, 0],
                                  next_out := 0, avail_out := 2,
                                  ZStream.msg := ''buffer error''\<rparr>)"
    by (simp add: demo_flushed_def demo_eval)
  have d: "push_iter stored Z_SYNC_FLUSH (push_input stored (Uint8Array []) demo_flushed)
     = Return_false
         (demo_flushed\<lparr>strm := (strm demo_flushed)\<lparr>input := [], next_in := 0, avail_in := 0,
                             output := [0, 0], next_out := 0, avail_out := 2,
                             ZStream.msg := ''buffer error''\<rparr>,
                        err := - 5, msg := ''buffer error'', ended := True,
                        calls := [OnData (Buf [1, 2]), OnData (Buf [3]), OnEnd 0,
                                  OnEnd (- 5)]\<rparr>)"
    by (simp add: demo_flushed_def demo_eval)
  from a b c d show ?thesis by blast
qed

text \<open>
  \<^bold>\<open>C2\<close>. For a push on a live object whose loop is left (no engine step returned an
  error): the loop has called only \<^verbatim>\<open>onData\<close>. If the mode is finish, the engine is
  finalized, \<^verbatim>\<open>onEnd\<close> is called once with the status of the finalization, which
  becomes \<^verbatim>\<open>err\<close>, the object is marked ended, and \<^verbatim>\<open>push\<close> returns whether that
  status is ok. If the mode is sync-flush, \<^verbatim>\<open>onEnd\<close> is called once with ok, the
  remaining output capacity is set to 0, so that the next pass allocates a fresh buffer,
  the object is not ended, and \<^verbatim>\<open>push\<close> returns true. For every other mode \<^verbatim>\<open>push\<close>
  returns true and the object is as the loop left it, so no call of \<^verbatim>\<open>onEnd\<close> is made.
\<close>

theorem push_after_loop:
  assumes live: "\<not> ended this"
      and loop: "push_loop env (push_mode mode) (push_input env dat this) = Some (Inr this1)"
  shows "(\<exists>cs. calls this1 = calls this @ map OnData cs)
       \<and> (push_mode mode = Z_FINISH \<longrightarrow>
            (\<exists>this'. push env dat mode this
                        = Some (fst (zlib_deflateEnd env (strm this1)) = Z_OK, this')
               \<and> strm this' = snd (zlib_deflateEnd env (strm this1))
               \<and> calls this' = calls this1 @ [OnEnd (fst (zlib_deflateEnd env (strm this1)))]
               \<and> err this' = fst (zlib_deflateEnd env (strm this1))
               \<and> ended this'))
       \<and> (push_mode mode = Z_SYNC_FLUSH \<longrightarrow>
            (\<exists>this'. push env dat mode this = Some (True, this')
               \<and> calls this' = calls this1 @ [OnEnd Z_OK]
               \<and> err this' = Z_OK
               \<and> strm this' = (strm this1)\<lparr>avail_out := 0\<rparr>
               \<and> fresh_output (chunkSize (options this')) (strm this') =
                   (strm this1)\<lparr>output := Buf8 (chunkSize (options this')), next_out := 0,
                                 avail_out := chunkSize (options this')\<rparr>
               \<and> \<not> ended this'))
       \<and> (push_mode mode \<noteq> Z_FINISH \<and> push_mode mode \<noteq> Z_SYNC_FLUSH \<longrightarrow>
            push env dat mode this = Some (True, this1))"
proof -
  from push_loop_passes [OF loop] obtain n dn where
    p: "push_passes env (push_mode mode) n (push_input env dat this) = Some dn" and
    q: "push_iter env (push_mode mode) dn = Loop_exit this1" by auto
  from push_passes_frame [OF p] obtain bs1 where
    f1: "ended dn = ended this"
        "calls dn = calls this @ map (OnData \<circ> chunk_of (to (options this))) bs1"
    by (auto simp add: push_input_frame)
  from push_iter_exit [OF q] obtain bs2 where
    f2: "ended this1 = ended dn"
        "calls this1 = calls dn @ map (OnData \<circ> chunk_of (to (options dn))) bs2" by blast
  have "calls this1 = calls this @ map OnData (map (chunk_of (to (options this))) bs1
          @ map (chunk_of (to (options dn))) bs2)"
    using f1 f2 by simp
  then have c: "\<exists>cs. calls this1 = calls this @ map OnData cs" by blast
  have e: "\<not> ended this1" using f1 f2 live by simp
  have pe: "push env dat mode this = Some (push_end env (push_mode mode) this1)"
    using live loop by (simp add: push_def)
  have fin: "push_mode mode = Z_FINISH \<longrightarrow>
            (\<exists>this'. push env dat mode this
                        = Some (fst (zlib_deflateEnd env (strm this1)) = Z_OK, this')
               \<and> strm this' = snd (zlib_deflateEnd env (strm this1))
               \<and> calls this' = calls this1 @ [OnEnd (fst (zlib_deflateEnd env (strm this1)))]
               \<and> err this' = fst (zlib_deflateEnd env (strm this1))
               \<and> ended this')"
    by (simp add: pe push_end_def call_onEnd_frame split_beta)
  have syn: "push_mode mode = Z_SYNC_FLUSH \<longrightarrow>
            (\<exists>this'. push env dat mode this = Some (True, this')
               \<and> calls this' = calls this1 @ [OnEnd Z_OK]
               \<and> err this' = Z_OK
               \<and> strm this' = (strm this1)\<lparr>avail_out := 0\<rparr>
               \<and> fresh_output (chunkSize (options this')) (strm this') =
                   (strm this1)\<lparr>output := Buf8 (chunkSize (options this')), next_out := 0,
                                 avail_out := chunkSize (options this')\<rparr>
               \<and> \<not> ended this')"
    using e by (simp add: pe push_end_def call_onEnd_frame Let_def fresh_output_def
        Z_FINISH_def Z_SYNC_FLUSH_def)
  have other: "push_mode mode \<noteq> Z_FINISH \<and> push_mode mode \<noteq> Z_SYNC_FLUSH \<longrightarrow>
            push env dat mode this = Some (True, this1)"
    by (simp add: pe push_end_def)
  from c fin syn other show ?thesis by blast
qed

text \<open>
  A finishing push of three bytes with chunks of two, on the stand-in engine.
\<close>

theorem push_after_loop_witness:
  "\<not> ended demo
   \<and> push_loop stored (push_mode (Bool True)) (push_input stored (Uint8Array [1, 2, 3]) demo)
     = Some (Inr (demo\<lparr>strm := (strm demo)\<lparr>input := [1, 2, 3], next_in := 3, avail_in := 0,
                              total_in := 3, output := [3, 0], next_out := 1, avail_out := 1,
                              total_out := 3, state := Some (15, 4)\<rparr>,
                        chunks := [Buf [1, 2], Buf [3]],
                        calls := [OnData (Buf [1, 2]), OnData (Buf [3])]\<rparr>))
   \<and> push_mode (Bool True) = Z_FINISH
   \<and> (\<exists>this'. push stored (Uint8Array [1, 2, 3]) (Bool True) demo = Some (True, this')
         \<and> calls this' = [OnData (Buf [1, 2]), OnData (Buf [3]), OnEnd 0]
         \<and> err this' = 0 \<and> ended this')"
proof -
  let ?d1 = "demo\<lparr>strm := (strm demo)\<lparr>input := [1, 2, 3], next_in := 3, avail_in := 0,
                              total_in := 3, output := [3, 0], next_out := 1, avail_out := 1,
                              total_out := 3, state := Some (15, 4)\<rparr>,
                        chunks := [Buf [1, 2], Buf [3]],
                        calls := [OnData (Buf [1, 2]), OnData (Buf [3])]\<rparr>"
  have live: "\<not> ended demo" by (simp add: demo_def)
  have loop: "push_loop stored (push_mode (Bool True))
                (push_input stored (Uint8Array [1, 2, 3]) demo) = Some (Inr ?d1)"
    by (simp add: push_loop.simps demo_eval)
  have m: "push_mode (Bool True) = Z_FINISH" by (simp add: push_mode_def)
  have e: "fst (zlib_deflateEnd stored (strm ?d1)) = 0" by (simp add: stored_def)
  from push_after_loop [OF live loop] m have
    "\<exists>this'. push stored (Uint8Array [1, 2, 3]) (Bool True) demo
                        = Some (fst (zlib_deflateEnd stored (strm ?d1)) = Z_OK, this')
               \<and> strm this' = snd (zlib_deflateEnd stored (strm ?d1))
               \<and> calls this' = calls ?d1 @ [OnEnd (fst (zlib_deflateEnd stored (strm ?d1)))]
               \<and> err this' = fst (zlib_deflateEnd stored (strm ?d1))
               \<and> ended this'"
    by blast
  then have "\<exists>this'. push stored (Uint8Array [1, 2, 3]) (Bool True) demo = Some (True, this')
         \<and> calls this' = [OnData (Buf [1, 2]), OnData (Buf [3]), OnEnd 0]
         \<and> err this' = 0 \<and> ended this'"
    unfolding e by (auto simp add: Z_OK_def)
  with live loop m show ?thesis by blast
qed

text \<open>
  \<^bold>\<open>C3\<close>. For a push on a live object in which, after \<open>n\<close> passes that each ran the body
  again, the engine step returns a status that is neither ok nor stream-end: \<^verbatim>\<open>push\<close>
  returns false (it does return, and the model has no exception on this path); the calls
  it made are calls of \<^verbatim>\<open>onData\<close> followed by exactly one call of \<^verbatim>\<open>onEnd\<close>, with that
  status; \<^verbatim>\<open>err\<close> is that status and \<^verbatim>\<open>msg\<close> the message the engine left in the
  stream; the object is ended, and every later push returns false and leaves it as it is.
\<close>

theorem push_engine_error:
  assumes live: "\<not> ended this"
      and passes: "push_passes env (push_mode mode) n (push_input env dat this) = Some this_n"
      and step: "zlib_deflate env (fresh_output (chunkSize (options this_n)) (strm this_n))
                   (push_mode mode) = (status, s)"
      and bad: "status \<noteq> Z_OK" "status \<noteq> Z_STREAM_END"
  shows "\<exists>this' cs. push env dat mode this = Some (False, this')
           \<and> err this' = status \<and> msg this' = ZStream.msg s \<and> ended this'
           \<and> calls this' = calls this @ map OnData cs @ [OnEnd status]
           \<and> push env dat2 mode2 this' = Some (False, this')"
proof -
  let ?d = "(call_onEnd status (this_n\<lparr>strm := s\<rparr>))\<lparr>ended := True\<rparr>"
  have it: "push_iter env (push_mode mode) this_n = Return_false ?d"
    using bad by (simp add: push_iter_def step)
  have "push_loop env (push_mode mode) (push_input env dat this)
          = push_loop env (push_mode mode) this_n"
    by (rule push_passes_loop [OF passes])
  also have "\<dots> = Some (Inl ?d)"
    by (subst push_loop.simps) (simp add: it)
  finally have p: "push env dat mode this = Some (False, ?d)"
    using live by (simp add: push_def)
  from push_passes_frame [OF passes] obtain bss where
    "calls this_n = calls this @ map (OnData \<circ> chunk_of (to (options this))) bss"
    by (auto simp add: push_input_frame)
  then have c: "calls this_n = calls this @ map OnData (map (chunk_of (to (options this))) bss)"
    by simp
  have "err ?d = status \<and> msg ?d = ZStream.msg s \<and> ended ?d
      \<and> calls ?d = calls this @ map OnData (map (chunk_of (to (options this))) bss) @ [OnEnd status]
      \<and> push env dat2 mode2 ?d = Some (False, ?d)"
    using c by (simp add: call_onEnd_frame push_ended)
  with p show ?thesis by blast
qed

text \<open>
  A push with the mode 7, which the stand-in engine rejects at the first step.
\<close>

theorem push_engine_error_witness:
  "\<not> ended demo
   \<and> push_passes stored (push_mode (Num 7)) 0 (push_input stored (Uint8Array [1, 2, 3]) demo)
       = Some (push_input stored (Uint8Array [1, 2, 3]) demo)
   \<and> zlib_deflate stored
       (fresh_output (chunkSize (options (push_input stored (Uint8Array [1, 2, 3]) demo)))
          (strm (push_input stored (Uint8Array [1, 2, 3]) demo))) (push_mode (Num 7))
       = (- 2, (strm demo)\<lparr>input := [1, 2, 3], avail_in := 3, output := [0, 0],
                            avail_out := 2, ZStream.msg := ''stream error''\<rparr>)
   \<and> - 2 \<noteq> Z_OK \<and> - 2 \<noteq> Z_STREAM_END
   \<and> (\<exists>this'. push stored (Uint8Array [1, 2, 3]) (Num 7) demo = Some (False, this')
         \<and> err this' = - 2 \<and> msg this' = ''stream error'' \<and> ended this'
         \<and> calls this' = [OnEnd (- 2)]
         \<and> push stored (Uint8Array [4]) (Bool True) this' = Some (False, this'))"
proof -
  let ?d = "push_input stored (Uint8Array [1, 2, 3]) demo"
  let ?s = "(strm demo)\<lparr>input := [1, 2, 3], avail_in := 3, output := [0, 0],
                            avail_out := 2, ZStream.msg := ''stream error''\<rparr>"
  have live: "\<not> ended demo" by (simp add: demo_def)
  have passes: "push_passes stored (push_mode (Num 7)) 0 ?d = Some ?d" by simp
  have step: "zlib_deflate stored (fresh_output (chunkSize (options ?d)) (strm ?d))
                (push_mode (Num 7)) = (- 2, ?s)"
    by (simp add: demo_eval)
  have bad: "(- 2 :: int) \<noteq> Z_OK" "(- 2 :: int) \<noteq> Z_STREAM_END"
    by (simp_all add: Z_OK_def Z_STREAM_END_def)
  from push_engine_error [OF live passes step bad, of "Uint8Array [4]" "Bool True"]
  obtain this' cs where
    r: "push stored (Uint8Array [1, 2, 3]) (Num 7) demo = Some (False, this')"
       "err this' = - 2" "msg this' = ZStream.msg ?s" "ended this'"
       "calls this' = calls demo @ map OnData cs @ [OnEnd (- 2)]"
       "push stored (Uint8Array [4]) (Bool True) this' = Some (False, this')"
    by blast
  have "push stored (Uint8Array [1, 2, 3]) (Num 7) demo
          = Some (False, demo\<lparr>strm := ?s, err := - 2, msg := ''stream error'', ended := True,
                               calls := [OnEnd (- 2)]\<rparr>)"
    by (simp add: push_loop.simps demo_eval)
  with r(1) have "calls this' = [OnEnd (- 2)]" by auto
  with r have "\<exists>this'. push stored (Uint8Array [1, 2, 3]) (Num 7) demo = Some (False, this')
         \<and> err this' = - 2 \<and> msg this' = ''stream error'' \<and> ended this'
         \<and> calls this' = [OnEnd (- 2)]
         \<and> push stored (Uint8Array [4]) (Bool True) this' = Some (False, this')"
    by (simp add: demo_def ZStream_new_def)
  with live passes step bad show ?thesis by blast
qed

text \<open>
  \<^bold>\<open>C4\<close>. On an ended object, for every data and mode, \<^verbatim>\<open>push\<close> returns false and the
  object after the call is the object before it: the stream, the chunks, the result, and
  the log of hook calls included. So does every sequence of pushes, one after the other:
  each returns false and the object stays the same.
\<close>

theorem push_after_end:
  assumes "ended this"
  shows "push env dat mode this = Some (False, this)
       \<and> fold (\<lambda>(dat, mode) r.
                  case r of None \<Rightarrow> None
                  | Some (bs, d) \<Rightarrow>
                      (case push env dat mode d of None \<Rightarrow> None
                       | Some (b, d') \<Rightarrow> Some (bs @ [b], d')))
            args (Some (bs0, this))
           = Some (bs0 @ replicate (length args) False, this)"
proof -
  have "fold (\<lambda>(dat, mode) r.
                  case r of None \<Rightarrow> None
                  | Some (bs, d) \<Rightarrow>
                      (case push env dat mode d of None \<Rightarrow> None
                       | Some (b, d') \<Rightarrow> Some (bs @ [b], d')))
            args (Some (bs0, this))
           = Some (bs0 @ replicate (length args) False, this)"
  proof (induction args arbitrary: bs0)
    case Nil
    show ?case by simp
  next
    case (Cons a args)
    obtain dat mode where a: "a = (dat, mode)" by (cases a)
    show ?case
      using Cons.IH [of "bs0 @ [False]"] assms
      by (simp add: a push_ended replicate_app_Cons_same)
  qed
  then show ?thesis using assms by (simp add: push_ended)
qed

text \<open>
  The object a finishing push leaves is ended, and a further push on it changes nothing.
\<close>

theorem push_after_end_witness:
  "push stored (Uint8Array [1, 2, 3]) (Bool True) demo
     = Some (True, demo\<lparr>strm := (strm demo)\<lparr>input := [1, 2, 3], next_in := 3, avail_in := 0,
                              total_in := 3, output := [3, 0], next_out := 1, avail_out := 1,
                              total_out := 3, state := None\<rparr>,
                         result := Some (Buf [1, 2, 3]), ended := True,
                         calls := [OnData (Buf [1, 2]), OnData (Buf [3]), OnEnd 0]\<rparr>)
   \<and> push stored (Uint8Array [4]) (Num 2)
       (demo\<lparr>strm := (strm demo)\<lparr>input := [1, 2, 3], next_in := 3, avail_in := 0,
                              total_in := 3, output := [3, 0], next_out := 1, avail_out := 1,
                              total_out := 3, state := None\<rparr>,
                         result := Some (Buf [1, 2, 3]), ended := True,
                         calls := [OnData (Buf [1, 2]), OnData (Buf [3]), OnEnd 0]\<rparr>)
     = Some (False, demo\<lparr>strm := (strm demo)\<lparr>input := [1, 2, 3], next_in := 3, avail_in := 0,
                              total_in := 3, output := [3, 0], next_out := 1, avail_out := 1,
                              total_out := 3, state := None\<rparr>,
                         result := Some (Buf [1, 2, 3]), ended := True,
                         calls := [OnData (Buf [1, 2]), OnData (Buf [3]), OnEnd 0]\<rparr>)"
proof -
  let ?d = "demo\<lparr>strm := (strm demo)\<lparr>input := [1, 2, 3], next_in := 3, avail_in := 0,
                              total_in := 3, output := [3, 0], next_out := 1, avail_out := 1,
                              total_out := 3, state := None\<rparr>,
                         result := Some (Buf [1, 2, 3]), ended := True,
                         calls := [OnData (Buf [1, 2]), OnData (Buf [3]), OnEnd 0]\<rparr>"
  have a: "push stored (Uint8Array [1, 2, 3]) (Bool True) demo = Some (True, ?d)"
    by (simp add: push_loop.simps demo_eval)
  have e: "ended ?d" by simp
  from push_after_end [OF e, of stored "Uint8Array [4]" "Num 2" "[]" "[]"]
  have "push stored (Uint8Array [4]) (Num 2) ?d = Some (False, ?d)" by blast
  with a show ?thesis by blast
qed

text \<open>
  \<^bold>\<open>C5\<close>. The options the constructor keeps are the defaults overwritten by the caller's
  keys, with \<^verbatim>\<open>windowBits\<close> alone adjusted: negated when \<^verbatim>\<open>raw\<close> is set and it is
  positive; else increased by 16 when \<^verbatim>\<open>gzip\<close> is set and it lies strictly between 0
  and 16; else unchanged. A constructor that returns an object has called the engine's
  initialisation with the adjusted value, and got ok. With \<^verbatim>\<open>windowBits\<close> 15: \<^verbatim>\<open>raw\<close>
  gives \<open>-15\<close>, \<^verbatim>\<open>gzip\<close> gives 31, neither gives 15, and both give \<open>-15\<close>, the two
  adjustments being exclusive.
\<close>

theorem Deflate_windowBits:
  "Deflate_options options_arg =
     (let m = assign default_options
                (case options_arg of None \<Rightarrow> empty_object | Some ob \<Rightarrow> ob)
      in m\<lparr>windowBits :=
             (if raw m \<and> 0 < windowBits m then - windowBits m
              else if gzip m \<and> 0 < windowBits m \<and> windowBits m < 16 then windowBits m + 16
              else windowBits m)\<rparr>)
   \<and> (\<forall>d. Deflate env options_arg = Inr d \<longrightarrow>
          options d = Deflate_options options_arg
        \<and> fst (zlib_deflateInit2 env (ZStream_new\<lparr>avail_out := 0\<rparr>)
                 (level (Deflate_options options_arg)) (method (Deflate_options options_arg))
                 (windowBits (Deflate_options options_arg))
                 (memLevel (Deflate_options options_arg))
                 (strategy (Deflate_options options_arg))) = Z_OK)
   \<and> windowBits (Deflate_options
        (Some (empty_object\<lparr>o_raw := Some True, o_windowBits := Some 15\<rparr>))) = - 15
   \<and> windowBits (Deflate_options
        (Some (empty_object\<lparr>o_gzip := Some True, o_windowBits := Some 15\<rparr>))) = 31
   \<and> windowBits (Deflate_options (Some (empty_object\<lparr>o_windowBits := Some 15\<rparr>))) = 15
   \<and> windowBits (Deflate_options
        (Some (empty_object\<lparr>o_raw := Some True, o_gzip := Some True,
                             o_windowBits := Some 15\<rparr>))) = - 15"
proof -
  have a: "Deflate_options options_arg =
     (let m = assign default_options
                (case options_arg of None \<Rightarrow> empty_object | Some ob \<Rightarrow> ob)
      in m\<lparr>windowBits :=
             (if raw m \<and> 0 < windowBits m then - windowBits m
              else if gzip m \<and> 0 < windowBits m \<and> windowBits m < 16 then windowBits m + 16
              else windowBits m)\<rparr>)"
    by (simp add: Deflate_options_def adjust_windowBits_def Let_def)
  have b: "\<forall>d. Deflate env options_arg = Inr d \<longrightarrow>
          options d = Deflate_options options_arg
        \<and> fst (zlib_deflateInit2 env (ZStream_new\<lparr>avail_out := 0\<rparr>)
                 (level (Deflate_options options_arg)) (method (Deflate_options options_arg))
                 (windowBits (Deflate_options options_arg))
                 (memLevel (Deflate_options options_arg))
                 (strategy (Deflate_options options_arg))) = Z_OK"
    by (auto simp add: Deflate_def Deflate_init_def Let_def split_beta
        split: if_splits option.splits)
  have c: "windowBits (Deflate_options
        (Some (empty_object\<lparr>o_raw := Some True, o_windowBits := Some 15\<rparr>))) = - 15"
    "windowBits (Deflate_options
        (Some (empty_object\<lparr>o_gzip := Some True, o_windowBits := Some 15\<rparr>))) = 31"
    "windowBits (Deflate_options (Some (empty_object\<lparr>o_windowBits := Some 15\<rparr>))) = 15"
    "windowBits (Deflate_options
        (Some (empty_object\<lparr>o_raw := Some True, o_gzip := Some True,
                             o_windowBits := Some 15\<rparr>))) = - 15"
    by (simp_all add: Deflate_options_def adjust_windowBits_def assign_def
        default_options_def empty_object_def)
  show ?thesis using a b c by blast
qed

text \<open>
  The stand-in engine keeps the \<^verbatim>\<open>windowBits\<close> it is initialised with: \<open>-15\<close> for
  \<^verbatim>\<open>{raw: true, windowBits: 15}\<close>.
\<close>

theorem Deflate_windowBits_witness:
  "\<exists>d. Deflate stored (Some (empty_object\<lparr>o_raw := Some True, o_windowBits := Some 15\<rparr>)) = Inr d
      \<and> windowBits (options d) = - 15
      \<and> state (strm d) = Some (- 15, - 2)
      \<and> fst (zlib_deflateInit2 stored (ZStream_new\<lparr>avail_out := 0\<rparr>) (- 1) 8 (- 15) 8 0) = Z_OK"
proof -
  let ?oa = "Some (empty_object\<lparr>o_raw := Some True, o_windowBits := Some 15\<rparr>)"
  obtain d where d: "Deflate stored ?oa = Inr d" "state (strm d) = Some (- 15, - 2)"
    by (simp add: demo_eval)
  have o: "Deflate_options ?oa
            = default_options\<lparr>raw := True, windowBits := - 15\<rparr>"
    by (simp add: demo_eval)
  from Deflate_windowBits [of ?oa stored] d(1) have
    "options d = Deflate_options ?oa
        \<and> fst (zlib_deflateInit2 stored (ZStream_new\<lparr>avail_out := 0\<rparr>)
                 (level (Deflate_options ?oa)) (method (Deflate_options ?oa))
                 (windowBits (Deflate_options ?oa))
                 (memLevel (Deflate_options ?oa))
                 (strategy (Deflate_options ?oa))) = Z_OK"
    by blast
  then have "windowBits (options d) = - 15
      \<and> fst (zlib_deflateInit2 stored (ZStream_new\<lparr>avail_out := 0\<rparr>) (- 1) 8 (- 15) 8 0) = Z_OK"
    unfolding o by (simp add: default_options_def Z_DEFAULT_COMPRESSION_def Z_DEFLATED_def
        Z_DEFAULT_STRATEGY_def)
  with d show ?thesis by blast
qed

text \<open>
  \<^bold>\<open>C6\<close>. The default \<^verbatim>\<open>onData\<close> appends the chunk to \<^verbatim>\<open>chunks\<close>, so a series of calls
  leaves the chunks in the order of the calls. The default \<^verbatim>\<open>onEnd\<close>, for every status,
  empties \<^verbatim>\<open>chunks\<close>, stores the status in \<^verbatim>\<open>err\<close> and the stream's message in \<^verbatim>\<open>msg\<close>;
  it assigns \<^verbatim>\<open>result\<close> exactly when the status is ok, and leaves it as it was
  otherwise. The value assigned is the chunks joined in order: for byte-array chunks and
  binary output the concatenation of the bytes, for string chunks and the output
  \<^verbatim>\<open>'string'\<close> the concatenation of the strings.
\<close>

theorem default_hooks:
  "onData c this = this\<lparr>chunks := chunks this @ [c]\<rparr>
   \<and> chunks (fold onData cs this) = chunks this @ cs
   \<and> chunks (onEnd status this) = []
   \<and> err (onEnd status this) = status
   \<and> msg (onEnd status this) = ZStream.msg (strm this)
   \<and> (status \<noteq> Z_OK \<longrightarrow> result (onEnd status this) = result this)
   \<and> (status = Z_OK \<longrightarrow>
        result (onEnd status this)
          = Some (if to (options this) = ''string'' then BinStr (join (chunks this))
                  else Buf (flattenChunks (chunks this))))
   \<and> (status = Z_OK \<and> to (options this) \<noteq> ''string'' \<and> chunks this = map Buf bss \<longrightarrow>
        result (onEnd status this) = Some (Buf (concat bss)))
   \<and> (status = Z_OK \<and> to (options this) = ''string'' \<and> chunks this = map BinStr ss \<longrightarrow>
        result (onEnd status this) = Some (BinStr (concat ss)))"
proof -
  have a: "onData c this = this\<lparr>chunks := chunks this @ [c]\<rparr>" by (simp add: onData_def)
  have b: "status \<noteq> Z_OK \<longrightarrow> result (onEnd status this) = result this"
    by (simp add: onEnd_def)
  have c: "status = Z_OK \<longrightarrow>
        result (onEnd status this)
          = Some (if to (options this) = ''string'' then BinStr (join (chunks this))
                  else Buf (flattenChunks (chunks this)))"
    by (simp add: onEnd_def)
  have d: "status = Z_OK \<and> to (options this) \<noteq> ''string'' \<and> chunks this = map Buf bss \<longrightarrow>
        result (onEnd status this) = Some (Buf (concat bss))"
    by (simp add: onEnd_def flattenChunks_Buf)
  have e: "status = Z_OK \<and> to (options this) = ''string'' \<and> chunks this = map BinStr ss \<longrightarrow>
        result (onEnd status this) = Some (BinStr (concat ss))"
    by (simp add: onEnd_def join_BinStr)
  show ?thesis
    using a b c d e chunks_fold_onData [of cs this] onEnd_frame(5,6,7) [of status this]
    by blast
qed

text \<open>
  Two chunks, joined on ok in either representation, and dropped on the status \<open>-2\<close>.
\<close>

theorem default_hooks_witness:
  "chunks (fold onData [Buf [1, 2], Buf [3]] demo) = [Buf [1, 2], Buf [3]]
   \<and> result (onEnd Z_OK (demo\<lparr>chunks := [Buf [1, 2], Buf [3]]\<rparr>)) = Some (Buf [1, 2, 3])
   \<and> result (onEnd Z_OK (demo\<lparr>chunks := [BinStr [1, 2], BinStr [3]],
                               options := (options demo)\<lparr>to := ''string''\<rparr>\<rparr>))
       = Some (BinStr [1, 2, 3])
   \<and> result (onEnd (- 2) (demo\<lparr>chunks := [Buf [1, 2], Buf [3]]\<rparr>)) = None
   \<and> chunks (onEnd (- 2) (demo\<lparr>chunks := [Buf [1, 2], Buf [3]]\<rparr>)) = []
   \<and> err (onEnd (- 2) (demo\<lparr>chunks := [Buf [1, 2], Buf [3]]\<rparr>)) = - 2"
proof -
  let ?d = "demo\<lparr>chunks := [Buf [1, 2], Buf [3]]\<rparr>"
  let ?t = "demo\<lparr>chunks := [BinStr [1, 2], BinStr [3]],
                 options := (options demo)\<lparr>to := ''string''\<rparr>\<rparr>"
  have h1: "Z_OK = Z_OK \<and> to (options ?d) \<noteq> ''string'' \<and> chunks ?d = map Buf [[1, 2], [3]]"
    by (simp add: demo_def default_options_def)
  have h2: "Z_OK = Z_OK \<and> to (options ?t) = ''string''
              \<and> chunks ?t = map BinStr [[1, 2], [3]]"
    by simp
  have h3: "(- 2 :: int) \<noteq> Z_OK" by (simp add: Z_OK_def)
  from default_hooks [of "Buf [3]" demo "[Buf [1, 2], Buf [3]]" Z_OK]
  have a: "chunks (fold onData [Buf [1, 2], Buf [3]] demo) = [Buf [1, 2], Buf [3]]"
    by (simp add: demo_def)
  from default_hooks [of "Buf [3]" ?d "[]" Z_OK "[[1, 2], [3]]"] h1
  have "result (onEnd Z_OK ?d) = Some (Buf (concat [[1, 2], [3]]))" by blast
  then have b: "result (onEnd Z_OK ?d) = Some (Buf [1, 2, 3])" by simp
  from default_hooks [of "Buf [3]" ?t "[]" Z_OK _ "[[1, 2], [3]]"] h2
  have "result (onEnd Z_OK ?t) = Some (BinStr (concat [[1, 2], [3]]))" by blast
  then have c: "result (onEnd Z_OK ?t) = Some (BinStr [1, 2, 3])" by simp
  from default_hooks [of "Buf [3]" ?d "[]" "- 2"] h3
  have "result (onEnd (- 2) ?d) = result ?d \<and> chunks (onEnd (- 2) ?d) = []
             \<and> err (onEnd (- 2) ?d) = - 2"
    by blast
  then have d: "result (onEnd (- 2) ?d) = None \<and> chunks (onEnd (- 2) ?d) = []
             \<and> err (onEnd (- 2) ?d) = - 2"
    by (simp add: demo_def)
  from a b c d show ?thesis by blast
qed

text \<open>
  \<^bold>\<open>C7\<close>. \<^verbatim>\<open>deflate(input, options)\<close> constructs an object from the options (a throwing
  constructor throws out of it), pushes the input once with the mode finish, throws the
  object's message, or the table's entry for its error code when the message is empty,
  if the error code is not 0 afterwards, and returns \<^verbatim>\<open>result\<close> otherwise. When it
  returns, the result is the aggregate of exactly the chunks that push handed to
  \<^verbatim>\<open>onData\<close>, and \<^verbatim>\<open>onEnd\<close> was called once, last. \<^verbatim>\<open>deflateRaw\<close> and \<^verbatim>\<open>gzip\<close> do
  what \<^verbatim>\<open>deflate\<close> does on the options with \<^verbatim>\<open>raw\<close>, respectively \<^verbatim>\<open>gzip\<close>, set to
  true, and the constructor then sees the flag set.
\<close>

theorem one_shot:
  "deflate env inp options_arg =
     (case Deflate env options_arg of
        Inl e \<Rightarrow> Some (Inl e)
      | Inr d \<Rightarrow>
          (case push env inp (Num Z_FINISH) d of
             None \<Rightarrow> None
           | Some (r, d1) \<Rightarrow>
               Some (if err d1 \<noteq> 0
                     then Inl (Thrown (if msg d1 = '''' then msg_table env (err d1)
                                       else Some (msg d1)))
                     else Inr (result d1))))
   \<and> (\<forall>d b d1. Deflate env options_arg = Inr d
          \<and> push env inp (Num Z_FINISH) d = Some (b, d1) \<and> err d1 = 0 \<longrightarrow>
          (\<exists>bss. calls d1 = map (OnData \<circ> chunk_of (to (options d))) bss @ [OnEnd Z_OK]
              \<and> result d1 = Some (chunk_of (to (options d)) (concat bss))))
   \<and> (a < length h \<longrightarrow>
        snd (deflateRaw env h inp (Some a)) = deflate env inp (Some ((h ! a)\<lparr>o_raw := Some True\<rparr>))
      \<and> snd (gzip_fn env h inp (Some a)) = deflate env inp (Some ((h ! a)\<lparr>o_gzip := Some True\<rparr>)))
   \<and> snd (deflateRaw env h inp None) = deflate env inp (Some (empty_object\<lparr>o_raw := Some True\<rparr>))
   \<and> snd (gzip_fn env h inp None) = deflate env inp (Some (empty_object\<lparr>o_gzip := Some True\<rparr>))
   \<and> raw (Deflate_options (Some (ob\<lparr>o_raw := Some True\<rparr>)))
   \<and> gzip (Deflate_options (Some (ob\<lparr>o_gzip := Some True\<rparr>)))"
proof -
  have a: "deflate env inp options_arg =
     (case Deflate env options_arg of
        Inl e \<Rightarrow> Some (Inl e)
      | Inr d \<Rightarrow>
          (case push env inp (Num Z_FINISH) d of
             None \<Rightarrow> None
           | Some (r, d1) \<Rightarrow>
               Some (if err d1 \<noteq> 0
                     then Inl (Thrown (if msg d1 = '''' then msg_table env (err d1)
                                       else Some (msg d1)))
                     else Inr (result d1))))"
    by (simp add: deflate_def push_Bool_True split: sum.splits option.splits)
  have r: "\<forall>d b d1. Deflate env options_arg = Inr d
          \<and> push env inp (Num Z_FINISH) d = Some (b, d1) \<and> err d1 = 0 \<longrightarrow>
          (\<exists>bss. calls d1 = map (OnData \<circ> chunk_of (to (options d))) bss @ [OnEnd Z_OK]
              \<and> result d1 = Some (chunk_of (to (options d)) (concat bss)))"
  proof (intro allI impI)
    fix d b d1
    assume h: "Deflate env options_arg = Inr d
          \<and> push env inp (Num Z_FINISH) d = Some (b, d1) \<and> err d1 = 0"
    from Deflate_fresh [of env options_arg d] h
    have f: "\<not> ended d" "chunks d = []" "calls d = []" by simp_all
    from push_finish_result [OF f(1) f(2), of env inp b d1] h f(3)
    show "\<exists>bss. calls d1 = map (OnData \<circ> chunk_of (to (options d))) bss @ [OnEnd Z_OK]
              \<and> result d1 = Some (chunk_of (to (options d)) (concat bss))"
      by auto
  qed
  have b: "a < length h \<longrightarrow>
        snd (deflateRaw env h inp (Some a)) = deflate env inp (Some ((h ! a)\<lparr>o_raw := Some True\<rparr>))
      \<and> snd (gzip_fn env h inp (Some a)) = deflate env inp (Some ((h ! a)\<lparr>o_gzip := Some True\<rparr>))"
    by (simp add: deflateRaw_def gzip_fn_def options_or_new_def)
  have c: "snd (deflateRaw env h inp None) = deflate env inp (Some (empty_object\<lparr>o_raw := Some True\<rparr>))"
    "snd (gzip_fn env h inp None) = deflate env inp (Some (empty_object\<lparr>o_gzip := Some True\<rparr>))"
    by (simp_all add: deflateRaw_def gzip_fn_def options_or_new_def)
  have d: "raw (Deflate_options (Some (ob\<lparr>o_raw := Some True\<rparr>)))"
    "gzip (Deflate_options (Some (ob\<lparr>o_gzip := Some True\<rparr>)))"
    by (simp_all add: Deflate_options_def adjust_windowBits_def assign_def)
  show ?thesis using a r b c d by blast
qed

text \<open>
  \<^verbatim>\<open>deflateRaw\<close> on the options object at address 0 of a store of one object.
\<close>

theorem one_shot_witness:
  "0 < length [demo_options]
   \<and> snd (deflateRaw stored [demo_options] (Uint8Array [1, 2, 3]) (Some 0))
       = Some (Inr (Some (Buf [1, 2, 3])))
   \<and> deflate stored (Uint8Array [1, 2, 3]) (Some (demo_options\<lparr>o_raw := Some True\<rparr>))
       = Some (Inr (Some (Buf [1, 2, 3])))"
proof -
  have l: "0 < length [demo_options]" by simp
  have e: "deflate stored (Uint8Array [1, 2, 3]) (Some (demo_options\<lparr>o_raw := Some True\<rparr>))
       = Some (Inr (Some (Buf [1, 2, 3])))"
    by (simp add: deflate_def push_loop.simps demo_eval)
  from one_shot [of stored "Uint8Array [1, 2, 3]" "Some demo_options" 0 "[demo_options]"] l
  have "snd (deflateRaw stored [demo_options] (Uint8Array [1, 2, 3]) (Some 0))
          = deflate stored (Uint8Array [1, 2, 3]) (Some (([demo_options] ! 0)\<lparr>o_raw := Some True\<rparr>))"
    by blast
  with e l show ?thesis by simp
qed

text \<open>
  \<^bold>\<open>C8\<close> does not hold of the exported constants: \<^verbatim>\<open>Z_ERRNO\<close> is 1, the value of
  \<^verbatim>\<open>Z_STREAM_END\<close>, and \<^verbatim>\<open>Z_STREAM_ERROR\<close> is 2, the value of \<^verbatim>\<open>Z_NEED_DICT\<close>, where
  \<^verbatim>\<open>constants.d.ts\<close> declares \<open>-1\<close> and \<open>-2\<close>; the status codes are not distinct.
\<close>

theorem constants_collide:
  "constants_Z_ERRNO = constants_Z_STREAM_END
   \<and> constants_Z_STREAM_ERROR = constants_Z_NEED_DICT
   \<and> constants_Z_ERRNO \<noteq> declared_Z_ERRNO
   \<and> constants_Z_STREAM_ERROR \<noteq> declared_Z_STREAM_ERROR
   \<and> constants_Z_DATA_ERROR \<noteq> declared_Z_DATA_ERROR
   \<and> constants_Z_BUF_ERROR \<noteq> declared_Z_BUF_ERROR
   \<and> \<not> distinct (constants_Z_OK # constants_Z_STREAM_END # constants_error_codes)"
  by (simp add: constants_Z_ERRNO_def constants_Z_STREAM_END_def constants_Z_STREAM_ERROR_def
      constants_Z_NEED_DICT_def constants_Z_DATA_ERROR_def constants_Z_BUF_ERROR_def
      declared_Z_ERRNO_def declared_Z_STREAM_ERROR_def declared_Z_DATA_ERROR_def
      declared_Z_BUF_ERROR_def constants_error_codes_def constants_Z_OK_def)

text \<open>
  \<^bold>\<open>C10\<close>. \<^verbatim>\<open>deflateRaw(data, options)\<close> and \<^verbatim>\<open>gzip(data, options)\<close>, given the address
  of a caller's options object, leave the store with \<^verbatim>\<open>raw\<close>, respectively \<^verbatim>\<open>gzip\<close>,
  set to true in that very object, and nothing else changed, whatever the call then
  returns or throws. The constructor works on an object of its own: where it negates
  \<^verbatim>\<open>windowBits\<close> for the raw format, the caller's object keeps the value it had.
\<close>

theorem raw_gzip_write_options:
  assumes "a < length h"
  shows "fst (deflateRaw env h inp (Some a)) = h[a := (h ! a)\<lparr>o_raw := Some True\<rparr>]
       \<and> fst (gzip_fn env h inp (Some a)) = h[a := (h ! a)\<lparr>o_gzip := Some True\<rparr>]
       \<and> o_raw (fst (deflateRaw env h inp (Some a)) ! a) = Some True
       \<and> o_gzip (fst (gzip_fn env h inp (Some a)) ! a) = Some True
       \<and> (\<forall>w d. o_windowBits (h ! a) = Some w \<and> 0 < w
             \<and> Deflate env (Some (fst (deflateRaw env h inp (Some a)) ! a)) = Inr d \<longrightarrow>
             windowBits (options d) = - w
           \<and> o_windowBits (fst (deflateRaw env h inp (Some a)) ! a) = Some w)"
proof -
  have a: "fst (deflateRaw env h inp (Some a)) = h[a := (h ! a)\<lparr>o_raw := Some True\<rparr>]"
    "fst (gzip_fn env h inp (Some a)) = h[a := (h ! a)\<lparr>o_gzip := Some True\<rparr>]"
    by (simp_all add: deflateRaw_def gzip_fn_def options_or_new_def Let_def)
  have b: "\<forall>w d. o_windowBits (h ! a) = Some w \<and> 0 < w
             \<and> Deflate env (Some (fst (deflateRaw env h inp (Some a)) ! a)) = Inr d \<longrightarrow>
             windowBits (options d) = - w
           \<and> o_windowBits (fst (deflateRaw env h inp (Some a)) ! a) = Some w"
  proof (intro allI impI)
    fix w d
    assume h: "o_windowBits (h ! a) = Some w \<and> 0 < w
             \<and> Deflate env (Some (fst (deflateRaw env h inp (Some a)) ! a)) = Inr d"
    let ?ob = "(h ! a)\<lparr>o_raw := Some True\<rparr>"
    have ob: "fst (deflateRaw env h inp (Some a)) ! a = ?ob" using assms by (simp add: a)
    with h have "Deflate env (Some ?ob) = Inr d" by simp
    from Deflate_fresh [OF this] have "options d = Deflate_options (Some ?ob)" by simp
    then have "windowBits (options d) = - w"
      using h by (simp add: Deflate_options_def adjust_windowBits_def assign_def)
    then show "windowBits (options d) = - w
           \<and> o_windowBits (fst (deflateRaw env h inp (Some a)) ! a) = Some w"
      using h ob by simp
  qed
  show ?thesis using a b assms by simp
qed

text \<open>
  A store of one options object, \<^verbatim>\<open>{chunkSize: 2, windowBits: 15}\<close>, at address 0.
\<close>

theorem raw_gzip_write_options_witness:
  "0 < length [demo_options\<lparr>o_windowBits := Some 15\<rparr>]
   \<and> fst (deflateRaw stored [demo_options\<lparr>o_windowBits := Some 15\<rparr>] (Uint8Array [1, 2, 3]) (Some 0))
       = [demo_options\<lparr>o_windowBits := Some 15, o_raw := Some True\<rparr>]
   \<and> fst (gzip_fn stored [demo_options\<lparr>o_windowBits := Some 15\<rparr>] (Uint8Array [1, 2, 3]) (Some 0))
       = [demo_options\<lparr>o_windowBits := Some 15, o_gzip := Some True\<rparr>]
   \<and> (\<exists>d. Deflate stored (Some (demo_options\<lparr>o_windowBits := Some 15, o_raw := Some True\<rparr>)) = Inr d
          \<and> windowBits (options d) = - 15)"
proof -
  let ?h = "[demo_options\<lparr>o_windowBits := Some 15\<rparr>]"
  have l: "0 < length ?h" by simp
  note t = raw_gzip_write_options [OF l, of stored "Uint8Array [1, 2, 3]"]
  from t have a: "fst (deflateRaw stored ?h (Uint8Array [1, 2, 3]) (Some 0))
       = [demo_options\<lparr>o_windowBits := Some 15, o_raw := Some True\<rparr>]"
    and b: "fst (gzip_fn stored ?h (Uint8Array [1, 2, 3]) (Some 0))
       = [demo_options\<lparr>o_windowBits := Some 15, o_gzip := Some True\<rparr>]"
    by simp_all
  obtain d where d: "Deflate stored (Some (demo_options\<lparr>o_windowBits := Some 15, o_raw := Some True\<rparr>)) = Inr d"
    by (simp add: demo_eval)
  from t have "\<forall>w d. o_windowBits (?h ! 0) = Some w \<and> 0 < w
             \<and> Deflate stored (Some (fst (deflateRaw stored ?h (Uint8Array [1, 2, 3]) (Some 0)) ! 0)) = Inr d \<longrightarrow>
             windowBits (options d) = - w"
    by blast
  then have "windowBits (options d) = - 15" using d unfolding a by simp
  with a b d l show ?thesis by blast
qed

end
